theory Spec2Isabelle
  imports Main "HOL-Library.Word"
begin

unbundle bit_operations_syntax

section \<open>Values of the predicate language (RLMQueryBuilder.hpp)\<close>

text \<open>
  \<open>QueryMixed\<close> is a tagged union. Its tag \<open>m_type\<close> is a \<open>DataType\<close>, or the private
  enumerator \<open>type_Null\<close> when no member is active: that is the constructor \<open>Null\<close>, and
  \<open>is_null\<close> tests for it. The payloads are kept as the bits the C++ members hold:
  \<open>int64_t\<close> as a 64-bit word, \<open>float\<close> and \<open>double\<close> as their IEEE 754 bit patterns,
  binary data as bytes.
\<close>

datatype DataType =
    type_Int
  | type_Bool
  | type_String
  | type_Binary
  | type_Timestamp
  | type_Float
  | type_Double
  | type_Decimal
  | type_Link
  | type_LinkList
  | type_ObjectId

type_synonym ObjKey = "64 word"

datatype QueryMixed =
    Null
  | MInt "64 word"
  | MBool bool
  | MFloat "32 word"
  | MDouble "64 word"
  | MString string
  | MBinary "8 word list"
  | MTimestamp "64 word" "32 word"
  | MDecimal "128 word"
  | MObjectId "96 word"
  | MLink string ObjKey
  | MArray "QueryMixed list"

definition is_null :: "QueryMixed \<Rightarrow> bool" where
  "is_null v = (v = Null)"

text \<open>\<open>get_array\<close> is only called under the guard \<open>get_type() == type_LinkList\<close>.\<close>

fun get_array :: "QueryMixed \<Rightarrow> QueryMixed list" where
  "get_array (MArray xs) = xs"
| "get_array _ = []"

text \<open>
  \<open>QueryMixed::get<bool>\<close>: a switch over \<open>type_Bool\<close> and \<open>type_Int\<close>; every other tag
  runs into \<open>REALM_UNREACHABLE\<close>, which is \<open>None\<close> here.
\<close>

fun get_bool :: "QueryMixed \<Rightarrow> bool option" where
  "get_bool (MBool b) = Some b"
| "get_bool (MInt i) = Some (i \<noteq> 0)"
| "get_bool _ = None"

section \<open>The predicate tree (RLMQueryBuilder.hpp)\<close>

datatype OperatorType =
    Equal
  | NotEqual
  | LessThan
  | LessThanOrEqual
  | GreaterThan
  | GreaterThanOrEqual
  | BeginsWith
  | EndsWith
  | Contains
  | Like
  | In
  | Matches
  | Between

text \<open>\<open>ComparisonOptions\<close> is an \<open>unsigned char\<close> of flag bits.\<close>

type_synonym ComparisonOptions = "8 word"

definition None_options :: ComparisonOptions where
  "None_options = 0"

definition CaseInsensitive :: ComparisonOptions where
  "CaseInsensitive = 1"

definition DiacriticInsensitive :: ComparisonOptions where
  "DiacriticInsensitive = 2"

definition Normalized :: ComparisonOptions where
  "Normalized = 4"

definition LocaleSensitive :: ComparisonOptions where
  "LocaleSensitive = 8"

definition is_set :: "ComparisonOptions \<Rightarrow> ComparisonOptions \<Rightarrow> bool" where
  "is_set o1 opt = ((o1 AND opt) = opt)"

datatype ExpressionType =
    ConstantValue
  | EvaluatedObject
  | Variable
  | KeyPath
  | Function
  | UnionSet
  | IntersectSet
  | MinusSet
  | Subquery
  | Aggregate
  | AnyKey
  | Block
  | Conditional

datatype CompoundPredicateType = And | Or | Not_compound

datatype Modifier = Direct | All | Any

datatype Kind = Kind_Base | Kind_Compound | Kind_Comparison | Kind_True | Kind_False

text \<open>
  One constructor for each C++ constructor. The expression type is the constructor's
  first argument in C++ too, so it is independent of which members were set. The owning
  pointers \<open>m_operand\<close> and \<open>m_argument\<close> may be null.
\<close>

datatype PredicateExpression =
    ValueExpression ExpressionType QueryMixed
  | KeyPathExpression ExpressionType string
  | FunctionExpression ExpressionType "PredicateExpression option" string "PredicateExpression option"
  | SubqueryExpression ExpressionType string Predicate
and Predicate =
    Comparison PredicateExpression PredicateExpression Modifier OperatorType ComparisonOptions
  | OfKind Kind
  | Compound CompoundPredicateType "Predicate list"

fun expr_type :: "PredicateExpression \<Rightarrow> ExpressionType" where
  "expr_type (ValueExpression t _) = t"
| "expr_type (KeyPathExpression t _) = t"
| "expr_type (FunctionExpression t _ _ _) = t"
| "expr_type (SubqueryExpression t _ _) = t"

text \<open>Members a constructor does not set keep their defaults: an empty string, a null value.\<close>

fun key_path :: "PredicateExpression \<Rightarrow> string" where
  "key_path (KeyPathExpression _ k) = k"
| "key_path (SubqueryExpression _ k _) = k"
| "key_path _ = []"

fun expr_value :: "PredicateExpression \<Rightarrow> QueryMixed" where
  "expr_value (ValueExpression _ v) = v"
| "expr_value _ = Null"

fun function_name :: "PredicateExpression \<Rightarrow> string" where
  "function_name (FunctionExpression _ _ f _) = f"
| "function_name _ = []"

fun operand :: "PredicateExpression \<Rightarrow> PredicateExpression option" where
  "operand (FunctionExpression _ x _ _) = x"
| "operand _ = None"

fun argument :: "PredicateExpression \<Rightarrow> PredicateExpression option" where
  "argument (FunctionExpression _ _ _ a) = a"
| "argument _ = None"

fun predicate :: "PredicateExpression \<Rightarrow> Predicate option" where
  "predicate (SubqueryExpression _ _ p) = Some p"
| "predicate _ = None"

section \<open>Schema and storage\<close>

datatype PropertyType =
    PropertyType_Int
  | PropertyType_Bool
  | PropertyType_String
  | PropertyType_Data
  | PropertyType_Date
  | PropertyType_Float
  | PropertyType_Double
  | PropertyType_Object
  | PropertyType_LinkingObjects
  | PropertyType_Mixed
  | PropertyType_ObjectId
  | PropertyType_Decimal

text \<open>
  \<open>RLMProperty\<close>, \<open>RLMObjectSchema\<close> and \<open>RLMSchema\<close> are declared outside the sources;
  the records hold the members the query builder reads. \<open>objectClassName\<close> and
  \<open>linkOriginPropertyName\<close> may be nil.
\<close>

record RLMProperty =
  name :: string
  type :: PropertyType
  array :: bool
  objectClassName :: "string option"
  linkOriginPropertyName :: "string option"
  columnName :: string

record RLMObjectSchema =
  className :: string
  objectName :: string
  properties :: "RLMProperty list"

type_synonym RLMSchema = "RLMObjectSchema list"

text \<open>\<open>objectSchema[propertyName]\<close>: the property of that name, or nil.\<close>

definition property_named :: "RLMObjectSchema \<Rightarrow> string \<Rightarrow> RLMProperty option" where
  "property_named objectSchema n = find (\<lambda>p. name p = n) (properties objectSchema)"

datatype ColumnType =
    col_type_Int
  | col_type_Bool
  | col_type_String
  | col_type_OldStringEnum
  | col_type_Binary
  | col_type_OldTable
  | col_type_OldMixed
  | col_type_OldDateTime
  | col_type_Timestamp
  | col_type_Float
  | col_type_Double
  | col_type_Decimal
  | col_type_Link
  | col_type_LinkList
  | col_type_BackLink
  | col_type_ObjectId

text \<open>
  A column key carries the column's type and attributes. A null key (the one
  \<open>get_column_key\<close> returns for an unknown name) is \<open>None\<close>.
\<close>

record ColKey =
  col_index :: nat
  col_type :: ColumnType
  is_nullable :: bool
  is_list :: bool

record Table =
  get_column_key :: "string \<Rightarrow> ColKey option"
  get_link_target :: "ColKey \<Rightarrow> string option"
  is_valid :: "ObjKey \<Rightarrow> bool"

record Group =
  get_table :: "string \<Rightarrow> Table option"

section \<open>Errors\<close>

text \<open>
  Every \<open>precondition_failure\<close> throws \<open>std::logic_error\<close> with a formatted message; one
  constructor stands for each message, with the values the format string is filled with.
  The last group are not exceptions of the builder: \<open>AssertionFailed\<close> is a failed
  \<open>REALM_ASSERT\<close>, which terminates the process; \<open>Unreachable\<close> is control reaching
  \<open>REALM_UNREACHABLE\<close> or \<open>REALM_COMPILER_HINT_UNREACHABLE\<close>; \<open>UndefinedConversion\<close>,
  \<open>NullDereference\<close> and \<open>UninitializedRead\<close> are a conversion and reads the language leaves
  undefined.

  A \<open>Description\<close> is what \<open>QueryMixed::description\<close> returns: a fixed text, or the value
  printed by \<open>to_string\<close>.
\<close>

datatype TypeName = ClassName "string option" | PropertyTypeName PropertyType

datatype Description = Description_text string | Printed QueryMixed

datatype error =
    InvalidPropertyType
  | CollectionOperationOnNonList
  | CountHasNoProperties
  | AggregateNeedsNumericProperty string
  | AggregateNeedsNumericValue string
  | AggregateValueMismatch string PropertyType Description
  | AggregatePropertyMismatch string PropertyType PropertyType
  | UnsupportedCollectionOperation string
  | OperatorNotSupportedForType OperatorType PropertyType
  | OperatorNotSupportedForString OperatorType
  | LikeNotSupportedDiacriticInsensitive
  | OperatorNotSupportedForStringKeyPathRight OperatorType
  | BetweenRequiresTwoValues
  | BetweenArrayObjectsType PropertyType
  | DataOverLink
  | OperatorNotSupportedForBinary OperatorType
  | OperatorNotSupportedForBinaryKeyPathRight OperatorType
  | TwoDataProperties
  | TwoListProperties
  | CannotConvertToObjectId
  | ObjectTypeNotSupported PropertyType
  | MustCompareKeyPath
  | NilOnLeft
  | PropertyNotFound string string
  | PropertyNotALink string string
  | AggregateOnNonCollection
  | CollectionRequiresAggregate
  | ExpectedObjectOfType TypeName string string Description
  | ExpectedObjectOfTypeIn TypeName string string Description
  | InRequiresArray
  | InvalidKeyPath string
  | SingleLevelKeyOnly
  | AggregateVersusAggregate
  | ComparisonBetweenProperties PropertyType PropertyType
  | SubqueryCountNeedsConstantInteger
  | ValidateMessage string
  | FunctionNotSupportedOnSubquery string
  | SubqueryNeedsCount
  | FunctionNotSupported string
  | UnsupportedCompoundType
  | AllModifierNotSupported
  | AnyModifierNeedsKeyPathAndValue
  | BetweenNeedsKeyPathAndAggregate
  | InNeedsKeyPathAndAggregate
  | SubqueryWithoutCount
  | UnsupportedPredicateKind
  | SchemaError string
  | Unreachable
  | UndefinedConversion
  | AssertionFailed
  | NullDereference
  | UninitializedRead

text \<open>
  \<open>QueryMixed::get_type\<close> is \<open>REALM_ASSERT(m_type != type_Null); return DataType(m_type)\<close>:
  on a null value the assertion fails.
\<close>

fun get_type :: "QueryMixed \<Rightarrow> error + DataType" where
  "get_type Null = Inl AssertionFailed"
| "get_type (MInt _) = Inr type_Int"
| "get_type (MBool _) = Inr type_Bool"
| "get_type (MFloat _) = Inr type_Float"
| "get_type (MDouble _) = Inr type_Double"
| "get_type (MString _) = Inr type_String"
| "get_type (MBinary _) = Inr type_Binary"
| "get_type (MTimestamp _ _) = Inr type_Timestamp"
| "get_type (MDecimal _) = Inr type_Decimal"
| "get_type (MObjectId _) = Inr type_ObjectId"
| "get_type (MLink _ _) = Inr type_Link"
| "get_type (MArray _) = Inr type_LinkList"

text \<open>
  \<open>QueryMixed::description\<close> goes through \<open>switch_on_type\<close>, whose switch has a case for
  every tag but \<open>type_Bool\<close>: a boolean value falls out of the switch into
  \<open>REALM_COMPILER_HINT_UNREACHABLE\<close>. For a decimal it prints the member \<open>id_val\<close> of the
  union, not \<open>decimal_val\<close>: the first twelve of the sixteen bytes of the decimal, read as
  an object id (its low 96 bits, the machines the framework runs on being little-endian).
\<close>

fun description :: "QueryMixed \<Rightarrow> error + Description" where
  "description Null = Inr (Description_text ''<null>'')"
| "description (MBinary x) = Inr (Description_text ''binary'')"
| "description (MTimestamp s n) = Inr (Description_text ''timestamp'')"
| "description (MLink t k) = Inr (Description_text t)"
| "description (MArray xs) = Inr (Description_text ''array'')"
| "description (MBool x) = Inl Unreachable"
| "description (MInt i) = Inr (Printed (MInt i))"
| "description (MFloat f) = Inr (Printed (MFloat f))"
| "description (MDouble d) = Inr (Printed (MDouble d))"
| "description (MString s) = Inr (Printed (MString s))"
| "description (MDecimal d) = Inr (Printed (MObjectId (ucast d)))"
| "description (MObjectId i) = Inr (Printed (MObjectId i))"

section \<open>Value validation (\<open>validate_value\<close>)\<close>

fun type_is_numeric :: "DataType \<Rightarrow> bool" where
  "type_is_numeric type_Int = True"
| "type_is_numeric type_Float = True"
| "type_is_numeric type_Double = True"
| "type_is_numeric type_Decimal = True"
| "type_is_numeric _ = False"

text \<open>
  \<open>isnan(v) || (v >= lowest && v <= max)\<close> on the bits of a double: with the sign bit
  cleared, a NaN is above the bits of infinity, and the other doubles are ordered as their
  magnitudes are; \<open>0x47EFFFFFE0000000\<close> is \<open>FLT_MAX\<close> as a double.
\<close>

definition double_fits_float :: "64 word \<Rightarrow> bool" where
  "double_fits_float v =
     (let m = v AND 0x7FFFFFFFFFFFFFFF
      in m > 0x7FF0000000000000 \<or> m \<le> 0x47EFFFFFE0000000)"

text \<open>
  The part of \<open>validate_value\<close> from \<open>if (value.is_null()) return false\<close> on: the switch
  over the column's type. Every \<open>value.get_type()\<close> in it is on a value that is not null.
  \<open>dec\<close> is \<open>Decimal128::is_valid_str\<close> of the storage engine.
\<close>

definition validate_value_switch ::
    "(string \<Rightarrow> bool) \<Rightarrow> QueryMixed \<Rightarrow> ColKey \<Rightarrow> string option \<Rightarrow> error + bool" where
  "validate_value_switch dec v c object_type =
     (if is_null v then Inr False
      else
        (case get_type v of
           Inl e \<Rightarrow> Inl e
         | Inr t \<Rightarrow>
             (case col_type c of
                col_type_String \<Rightarrow> Inr (t = type_String)
              | col_type_Bool \<Rightarrow>
                  Inr (t = type_Bool \<or> (t = type_Int \<and> (v = MInt 0 \<or> v = MInt 1)))
              | col_type_Timestamp \<Rightarrow> Inr (t = type_Timestamp)
              | col_type_Int \<Rightarrow> Inr (t = type_Int)
              | col_type_Float \<Rightarrow>
                  (case v of
                     MDouble d \<Rightarrow> Inr (double_fits_float d)
                   | _ \<Rightarrow> Inr (t = type_Float \<or> t = type_Int))
              | col_type_Double \<Rightarrow> Inr (t = type_Float \<or> t = type_Double \<or> t = type_Int)
              | col_type_Binary \<Rightarrow> Inr (t = type_Binary)
              | col_type_OldMixed \<Rightarrow> Inr False
              | col_type_BackLink \<Rightarrow> Inr True
              | col_type_LinkList \<Rightarrow>
                  (case v of MLink tn _ \<Rightarrow> Inr (Some tn = object_type) | _ \<Rightarrow> Inr False)
              | col_type_Link \<Rightarrow>
                  (case v of MLink tn _ \<Rightarrow> Inr (Some tn = object_type) | _ \<Rightarrow> Inr False)
              | col_type_ObjectId \<Rightarrow> Inr (t = type_ObjectId)
              | col_type_Decimal \<Rightarrow>
                  Inr (type_is_numeric t \<or> (case v of MString s \<Rightarrow> dec s | _ \<Rightarrow> False))
              | _ \<Rightarrow> Inl InvalidPropertyType)))"

text \<open>
  \<open>validate_value\<close> calls itself on the elements of an array with \<open>array = false\<close>;
  \<open>all_of_validate_value\<close> is that \<open>std::all_of\<close>, which stops at the first element that is
  not valid. With \<open>array = true\<close> it calls \<open>get_type\<close> before it has tested the value for
  null, so that a null value for a list column that is not nullable fails the assertion
  of \<open>get_type\<close>.
\<close>

function validate_value ::
    "(string \<Rightarrow> bool) \<Rightarrow> QueryMixed \<Rightarrow> bool \<Rightarrow> ColKey option \<Rightarrow> string option \<Rightarrow> error + bool"
  and all_of_validate_value ::
    "(string \<Rightarrow> bool) \<Rightarrow> QueryMixed list \<Rightarrow> ColKey \<Rightarrow> string option \<Rightarrow> error + bool"
where
  "validate_value dec v arr col object_type =
     (case col of
        None \<Rightarrow> Inr True
      | Some c \<Rightarrow>
          if is_nullable c \<and> is_null v then Inr True
          else if arr then
            (case get_type v of
               Inl e \<Rightarrow> Inl e
             | Inr t \<Rightarrow>
                 if t = type_LinkList
                 then all_of_validate_value dec (get_array v) c object_type
                 else validate_value_switch dec v c object_type)
          else validate_value_switch dec v c object_type)"
| "all_of_validate_value dec [] c object_type = Inr True"
| "all_of_validate_value dec (v # vs) c object_type =
     (case validate_value dec v False (Some c) object_type of
        Inl e \<Rightarrow> Inl e
      | Inr b \<Rightarrow> if b then all_of_validate_value dec vs c object_type else Inr False)"
  by pat_completeness auto
termination
  by (relation "measures
        [\<lambda>x. case x of Inl (dec, v, arr, col, ot) \<Rightarrow> (if arr then 2 else 0) | Inr _ \<Rightarrow> 1,
         \<lambda>x. case x of Inl _ \<Rightarrow> 0 | Inr (dec, vs, c, ot) \<Rightarrow> length vs]") auto

declare validate_value.simps [simp del]

section \<open>Column references and query expressions\<close>

text \<open>
  A \<open>ColumnReference\<close> keeps the link properties traversed, the terminal property, the
  table of the query it was made for and the column key its constructor looked up.
\<close>

record ColumnReference =
  m_links :: "RLMProperty list"
  m_property :: RLMProperty
  m_table :: string
  m_col :: "ColKey option"

text \<open>The C++ type a value or column is requested as (\<open>value_of_type<T>\<close>, \<open>resolve<T>\<close>).\<close>

datatype Requested =
    R_bool
  | R_Int
  | R_Float
  | R_Double
  | R_Timestamp
  | R_Decimal128
  | R_ObjectId
  | R_String
  | R_Link

datatype CollectionOperationType = Count | Minimum | Maximum | Sum | Average

text \<open>
  The comparators of the diacritic-insensitive string comparisons, with their
  \<open>CFStringCompareFlags\<close> template argument.
\<close>

type_synonym CFStringCompareFlags = "64 word"

definition kCFCompareCaseInsensitive :: CFStringCompareFlags where
  "kCFCompareCaseInsensitive = 1"

definition kCFCompareBackwards :: CFStringCompareFlags where
  "kCFCompareBackwards = 4"

definition kCFCompareAnchored :: CFStringCompareFlags where
  "kCFCompareAnchored = 8"

definition kCFCompareDiacriticInsensitive :: CFStringCompareFlags where
  "kCFCompareDiacriticInsensitive = 128"

datatype Comparator = CF_Equal CFStringCompareFlags | CF_ContainsSubstring CFStringCompareFlags

fun CaseSensitive :: "Comparator \<Rightarrow> Comparator" where
  "CaseSensitive (CF_Equal opts) = CF_Equal (opts AND NOT kCFCompareCaseInsensitive)"
| "CaseSensitive (CF_ContainsSubstring opts) =
     CF_ContainsSubstring (opts AND NOT kCFCompareCaseInsensitive)"

fun CaseInsensitive_of :: "Comparator \<Rightarrow> Comparator" where
  "CaseInsensitive_of (CF_Equal opts) = CF_Equal (opts OR kCFCompareCaseInsensitive)"
| "CaseInsensitive_of (CF_ContainsSubstring opts) =
     CF_ContainsSubstring (opts OR kCFCompareCaseInsensitive)"

text \<open>
  The query of the storage engine is used through five calls only: \<open>group\<close>,
  \<open>end_group\<close>, \<open>Or\<close>, \<open>Not\<close> and \<open>and_query\<close> (or a condition call such as \<open>equal\<close>, which
  adds one condition as \<open>and_query\<close> does). A \<open>Query\<close> is its table and the calls made on
  it, in order. The expressions handed over are terms: which comparison, on which operands.
\<close>

datatype Query = Query string "QueryOp list"
and QueryOp =
    Op_group
  | Op_end_group
  | Op_Or
  | Op_Not
  | Op_and_query Expression
and Expression =
    TrueExpression
  | FalseExpression
  | Compare OperatorType Subexpr Subexpr
  | StringCompare OperatorType Subexpr Subexpr bool
  | CFCompare Comparator Subexpr Subexpr
  | SizeNotZeroAnd Subexpr Expression
  | BinaryCompare OperatorType "ColKey option" "8 word list option"
and Subexpr =
    Columns Requested ColumnReference "Query option"
  | LinkCount Subexpr
  | SubColumnAggregate CollectionOperationType Requested Subexpr "ColKey option"
  | BoolValue bool
  | IntValue "64 word"
  | FloatValue "32 word"
  | DoubleValue "64 word"
  | TimestampValue "64 word" "32 word"
  | DecimalValue "128 word"
  | ObjectIdValue "96 word"
  | NullValue
  | ObjValue string ObjKey
  | ConstantStringValue "string option"

fun query_table :: "Query \<Rightarrow> string" where
  "query_table (Query t ops) = t"

fun query_ops :: "Query \<Rightarrow> QueryOp list" where
  "query_ops (Query t ops) = ops"

definition "where" :: "string \<Rightarrow> Query" where
  "where t = Query t []"

fun add_op :: "QueryOp \<Rightarrow> Query \<Rightarrow> Query" where
  "add_op x (Query t ops) = Query t (ops @ [x])"

definition group :: "Query \<Rightarrow> Query" where
  "group q = add_op Op_group q"

definition end_group :: "Query \<Rightarrow> Query" where
  "end_group q = add_op Op_end_group q"

definition Or_query :: "Query \<Rightarrow> Query" where
  "Or_query q = add_op Op_Or q"

definition Not_query :: "Query \<Rightarrow> Query" where
  "Not_query q = add_op Op_Not q"

definition and_query :: "Expression \<Rightarrow> Query \<Rightarrow> Query" where
  "and_query e q = add_op (Op_and_query e) q"

text \<open>
  The conversions \<open>QueryMixed::get<T>\<close> relies on and that are not code of the builder: the
  conversions between \<open>int64_t\<close>, \<open>float\<close> and \<open>double\<close> that C++ applies when a member of
  one type is returned as another, on the bits of the values, and the constructors of
  \<open>Decimal128\<close> and \<open>ObjectId\<close> of the storage engine. A conversion from floating point is
  \<open>None\<close> where C++ leaves it undefined, the value being out of the range of the target.
\<close>

record Conversions =
  int_of_float :: "32 word \<Rightarrow> 64 word option"
  int_of_double :: "64 word \<Rightarrow> 64 word option"
  float_of_int :: "64 word \<Rightarrow> 32 word"
  float_of_double :: "64 word \<Rightarrow> 32 word option"
  double_of_int :: "64 word \<Rightarrow> 64 word"
  double_of_float :: "32 word \<Rightarrow> 64 word"
  decimal_of_int :: "64 word \<Rightarrow> 128 word"
  decimal_of_float :: "32 word \<Rightarrow> 128 word"
  decimal_of_double :: "64 word \<Rightarrow> 128 word"
  decimal_of_string :: "string \<Rightarrow> 128 word"
  object_id_of_string :: "string \<Rightarrow> 96 word"

text \<open>
  What the builder is constructed with (\<open>m_group\<close>, \<open>m_schema\<close>), the two functions of
  the storage engine it calls that compute on data: \<open>Decimal128::is_valid_str\<close> and
  \<open>Query::validate\<close>, which returns a message, empty when the query is valid, and the
  conversions above.
\<close>

record QueryBuilder =
  m_group :: Group
  m_schema :: RLMSchema
  is_valid_str :: "string \<Rightarrow> bool"
  validate :: "Query \<Rightarrow> string"
  conversions :: Conversions

text \<open>
  Modelled from the spec: the keyed subscript of \<open>RLMSchema\<close> is not in the sources; an
  unknown link-target schema is a SchemaError (spec, section 7). A nil class name is unknown.
\<close>

definition schema_named :: "RLMSchema \<Rightarrow> string option \<Rightarrow> error + RLMObjectSchema" where
  "schema_named S n =
     (case n of
        None \<Rightarrow> Inl (SchemaError [])
      | Some cn \<Rightarrow>
          (case find (\<lambda>os. className os = cn) S of
             None \<Rightarrow> Inl (SchemaError cn)
           | Some os \<Rightarrow> Inr os))"

text \<open>
  \<open>get_table(group, objectSchema)\<close> dereferences the table reference that
  \<open>ObjectStore::table_for_object_type\<close> returns, which is null when the group has no table
  \<open>class_<objectName>\<close>.
\<close>

definition class_table_name :: "string \<Rightarrow> string" where
  "class_table_name n = ''class_'' @ n"

definition get_table_for :: "Group \<Rightarrow> RLMObjectSchema \<Rightarrow> error + Table" where
  "get_table_for g objectSchema =
     (case get_table g (class_table_name (objectName objectSchema)) of
        None \<Rightarrow> Inl NullDereference
      | Some t \<Rightarrow> Inr t)"

text \<open>\<open>with_link_origin\<close>: the table and column a linking-objects property comes from.\<close>

definition with_link_origin ::
    "QueryBuilder \<Rightarrow> RLMProperty \<Rightarrow> error + (Table \<times> ColKey option)" where
  "with_link_origin b prop =
     (case schema_named (m_schema b) (objectClassName prop) of
        Inl e \<Rightarrow> Inl e
      | Inr link_origin_schema \<Rightarrow>
          (case get_table_for (m_group b) link_origin_schema of
             Inl e \<Rightarrow> Inl e
           | Inr link_origin_table \<Rightarrow>
               Inr (link_origin_table,
                    (case linkOriginPropertyName prop of
                       None \<Rightarrow> None
                     | Some n \<Rightarrow>
                         (case property_named link_origin_schema n of
                            None \<Rightarrow> None
                          | Some p \<Rightarrow> get_column_key link_origin_table (columnName p))))))"

text \<open>
  One step of \<open>walk_link_chain\<close>: from a table over a link to the next table. A link whose
  column is unknown, or whose target table is not in the group, is a fault of the storage
  engine.
\<close>

definition walk_link :: "QueryBuilder \<Rightarrow> Table \<Rightarrow> RLMProperty \<Rightarrow> error + Table" where
  "walk_link b t link =
     (if type link \<noteq> PropertyType_LinkingObjects then
        (case get_column_key t (columnName link) of
           None \<Rightarrow> Inl NullDereference
         | Some index \<Rightarrow>
             (case get_link_target t index of
                None \<Rightarrow> Inl NullDereference
              | Some n \<Rightarrow>
                  (case get_table (m_group b) n of
                     None \<Rightarrow> Inl NullDereference
                   | Some t' \<Rightarrow> Inr t')))
      else
        (case with_link_origin b link of
           Inl e \<Rightarrow> Inl e
         | Inr (link_origin_table, link_origin_column) \<Rightarrow> Inr link_origin_table))"

fun walk_links :: "QueryBuilder \<Rightarrow> Table \<Rightarrow> RLMProperty list \<Rightarrow> error + Table" where
  "walk_links b t [] = Inr t"
| "walk_links b t (link # links) =
     (case walk_link b t link of
        Inl e \<Rightarrow> Inl e
      | Inr t' \<Rightarrow> walk_links b t' links)"

definition walk_link_chain :: "QueryBuilder \<Rightarrow> string \<Rightarrow> RLMProperty list \<Rightarrow> error + Table" where
  "walk_link_chain b tname links =
     (case get_table (m_group b) tname of
        None \<Rightarrow> Inl NullDereference
      | Some t \<Rightarrow> walk_links b t links)"

text \<open>The constructor of \<open>ColumnReference\<close>.\<close>

definition ColumnReference_new ::
    "QueryBuilder \<Rightarrow> Query \<Rightarrow> RLMProperty \<Rightarrow> RLMProperty list \<Rightarrow> error + ColumnReference" where
  "ColumnReference_new b query property links =
     (case walk_link_chain b (query_table query) links of
        Inl e \<Rightarrow> Inl e
      | Inr t \<Rightarrow>
          Inr \<lparr>m_links = links, m_property = property, m_table = query_table query,
               m_col = get_column_key t (columnName property)\<rparr>)"

definition column_type :: "ColumnReference \<Rightarrow> PropertyType" where
  "column_type c = type (m_property c)"

text \<open>
  \<open>resolve<T>\<close> walks the link chain as the constructor did, on the same group, so the
  walk is not repeated here; for a linking-objects property it looks up the origin of the
  property itself. \<open>T\<close> other than \<open>Link\<close> on a linking-objects property is
  \<open>REALM_TERMINATE\<close>. The column expression is kept as the reference it came from, with
  the requested type and the subquery, if one was passed.
\<close>

definition resolve ::
    "QueryBuilder \<Rightarrow> Requested \<Rightarrow> ColumnReference \<Rightarrow> Query option \<Rightarrow> error + Subexpr" where
  "resolve b T c subquery =
     (if column_type c \<noteq> PropertyType_LinkingObjects then Inr (Columns T c subquery)
      else if T = R_Link then
        (case with_link_origin b (m_property c) of
           Inl e \<Rightarrow> Inl e
         | Inr origin \<Rightarrow> Inr (Columns T c subquery))
      else Inl Unreachable)"

definition link_target_object_schema ::
    "QueryBuilder \<Rightarrow> ColumnReference \<Rightarrow> error + RLMObjectSchema" where
  "link_target_object_schema b c =
     (case column_type c of
        PropertyType_Object \<Rightarrow> schema_named (m_schema b) (objectClassName (m_property c))
      | PropertyType_LinkingObjects \<Rightarrow> schema_named (m_schema b) (objectClassName (m_property c))
      | _ \<Rightarrow> Inl Unreachable)"

definition has_links :: "ColumnReference \<Rightarrow> bool" where
  "has_links c = (m_links c \<noteq> [])"

definition has_any_to_many_links :: "ColumnReference \<Rightarrow> bool" where
  "has_any_to_many_links c = list_ex array (m_links c)"

definition last_link_column :: "QueryBuilder \<Rightarrow> ColumnReference \<Rightarrow> error + ColumnReference" where
  "last_link_column b c =
     (if m_links c = [] then Inl AssertionFailed
      else ColumnReference_new b (Query (m_table c) []) (last (m_links c)) (butlast (m_links c)))"

definition column_ignoring_links ::
    "QueryBuilder \<Rightarrow> ColumnReference \<Rightarrow> Query \<Rightarrow> error + ColumnReference" where
  "column_ignoring_links b c query = ColumnReference_new b query (m_property c) []"

text \<open>
  \<open>is_valid_for_column\<close>. With a null column key \<open>validate_value\<close> returns at once, whatever
  its \<open>array\<close> argument is.
\<close>

definition is_valid_for_column :: "QueryBuilder \<Rightarrow> QueryMixed \<Rightarrow> ColumnReference \<Rightarrow> error + bool" where
  "is_valid_for_column b v c =
     validate_value (is_valid_str b) v
       (case m_col c of None \<Rightarrow> True | Some k \<Rightarrow> is_list k)
       (m_col c) (objectClassName (m_property c))"

section \<open>Resolving key paths\<close>

record KeyPath_struct =
  links :: "RLMProperty list"
  property :: RLMProperty
  containsToManyRelationship :: bool

text \<open>
  The loop of \<open>key_path_from_string\<close>, on the part of the key path from \<open>start\<close> on. It
  returns when \<open>start\<close> reaches the end; \<open>property\<close> is still uninitialised then if the
  loop never ran.
\<close>

function key_path_loop ::
    "RLMSchema \<Rightarrow> RLMObjectSchema \<Rightarrow> string \<Rightarrow> RLMProperty list \<Rightarrow> RLMProperty option
       \<Rightarrow> bool \<Rightarrow> error + KeyPath_struct" where
  "key_path_loop schema objectSchema start lnks prop keyPathContainsToManyRelationship =
     (if start = [] then
        (case prop of
           None \<Rightarrow> Inl UninitializedRead
         | Some p \<Rightarrow>
             Inr \<lparr>links = lnks, property = p,
                  containsToManyRelationship = keyPathContainsToManyRelationship\<rparr>)
      else
        (let propertyName = takeWhile (\<lambda>c. c \<noteq> CHR ''.'') start;
             dot = dropWhile (\<lambda>c. c \<noteq> CHR ''.'') start
         in case property_named objectSchema propertyName of
              None \<Rightarrow> Inl (PropertyNotFound propertyName (className objectSchema))
            | Some p \<Rightarrow>
                (let toMany = (keyPathContainsToManyRelationship \<or> array p)
                 in if dot \<noteq> [] then
                      (if type p = PropertyType_Object \<or> type p = PropertyType_LinkingObjects then
                         (case objectClassName p of
                            None \<Rightarrow> Inl AssertionFailed
                          | Some cn \<Rightarrow>
                              (case schema_named schema (Some cn) of
                                 Inl e \<Rightarrow> Inl e
                               | Inr objectSchema' \<Rightarrow>
                                   key_path_loop schema objectSchema' (tl dot) (lnks @ [p])
                                     (Some p) toMany))
                       else Inl (PropertyNotALink propertyName (className objectSchema)))
                    else
                      Inr \<lparr>links = lnks, property = p, containsToManyRelationship = toMany\<rparr>)))"
  by pat_completeness auto
termination
proof (relation "measure (\<lambda>(schema, objectSchema, start, lnks, prop, f). length start)")
  show "wf (measure (\<lambda>(schema, objectSchema, start, lnks, prop, f). length start))"
    by simp
next
  fix schema :: RLMSchema and objectSchema :: RLMObjectSchema and start :: string
    and lnks :: "RLMProperty list" and pr :: "RLMProperty option" and f :: bool
    and dot :: string and p :: RLMProperty and toMany :: bool and cn :: string
    and objectSchema' :: RLMObjectSchema
  assume "start \<noteq> []" and d: "dot = dropWhile (\<lambda>c. c \<noteq> CHR ''.'') start" and "dot \<noteq> []"
  have "length dot \<le> length start"
    unfolding d by (rule length_dropWhile_le)
  moreover have "length (tl dot) < length dot"
    using \<open>dot \<noteq> []\<close> by (cases dot) simp_all
  ultimately show "((schema, objectSchema', tl dot, lnks @ [p], Some p, toMany),
                    (schema, objectSchema, start, lnks, pr, f))
      \<in> measure (\<lambda>(schema, objectSchema, start, lnks, prop, f). length start)"
    by simp
qed

declare key_path_loop.simps [simp del]

definition key_path_from_string ::
    "RLMSchema \<Rightarrow> RLMObjectSchema \<Rightarrow> string \<Rightarrow> error + KeyPath_struct" where
  "key_path_from_string schema objectSchema keyPath =
     key_path_loop schema objectSchema keyPath [] None False"

definition column_reference_from_key_path ::
    "QueryBuilder \<Rightarrow> Query \<Rightarrow> RLMObjectSchema \<Rightarrow> string \<Rightarrow> bool \<Rightarrow> error + ColumnReference" where
  "column_reference_from_key_path b m_query objectSchema keyPathString isAggregate =
     (case key_path_from_string (m_schema b) objectSchema keyPathString of
        Inl e \<Rightarrow> Inl e
      | Inr keyPath \<Rightarrow>
          if isAggregate \<and> \<not> containsToManyRelationship keyPath then Inl AggregateOnNonCollection
          else if \<not> isAggregate \<and> containsToManyRelationship keyPath
            then Inl CollectionRequiresAggregate
          else ColumnReference_new b m_query (property keyPath) (links keyPath))"

text \<open>
  \<open>validate_property_value\<close>, with the constructor of the error for its \<open>err\<close> format.
  Each \<open>precondition(condition, err, ..., value.description())\<close> evaluates its arguments
  before it tests the condition, so \<open>description\<close> runs whether the value is valid or not;
  it is taken first here (C++ leaves the order of the arguments open).
\<close>

definition validate_property_value ::
    "QueryBuilder \<Rightarrow> ColumnReference \<Rightarrow> QueryMixed
       \<Rightarrow> (TypeName \<Rightarrow> string \<Rightarrow> string \<Rightarrow> Description \<Rightarrow> error)
       \<Rightarrow> RLMObjectSchema \<Rightarrow> string \<Rightarrow> error + unit" where
  "validate_property_value b column v err objectSchema keyPath =
     (let prop = m_property column
      in case description v of
           Inl e \<Rightarrow> Inl e
         | Inr d \<Rightarrow>
             if type prop = PropertyType_LinkingObjects
                \<and> \<not> (\<not> is_null v \<and> get_type v = Inr type_Link
                       \<and> (case v of MLink t k \<Rightarrow> Some t = objectClassName prop | _ \<Rightarrow> False))
             then Inl (err (ClassName (objectClassName prop)) keyPath (className objectSchema) d)
             else
               (case is_valid_for_column b v column of
                  Inl e \<Rightarrow> Inl e
                | Inr ok \<Rightarrow>
                    if ok then Inr ()
                    else Inl (err (PropertyTypeName (type prop)) keyPath
                                (className objectSchema) d)))"

section \<open>Collection operations\<close>

fun property_type_is_numeric :: "PropertyType \<Rightarrow> bool" where
  "property_type_is_numeric PropertyType_Int = True"
| "property_type_is_numeric PropertyType_Float = True"
| "property_type_is_numeric PropertyType_Double = True"
| "property_type_is_numeric PropertyType_Decimal = True"
| "property_type_is_numeric _ = False"

record CollectionOperation =
  m_type :: CollectionOperationType
  m_link_column :: ColumnReference
  m_column :: "ColumnReference option"

definition type_for_name :: "string \<Rightarrow> error + CollectionOperationType" where
  "type_for_name n =
     (if n = ''@count'' then Inr Count
      else if n = ''@min'' then Inr Minimum
      else if n = ''@max'' then Inr Maximum
      else if n = ''@sum'' then Inr Sum
      else if n = ''@avg'' then Inr Average
      else Inl (UnsupportedCollectionOperation n))"

fun name_for_type :: "CollectionOperationType \<Rightarrow> string" where
  "name_for_type Count = ''@count''"
| "name_for_type Minimum = ''@min''"
| "name_for_type Maximum = ''@max''"
| "name_for_type Sum = ''@sum''"
| "name_for_type Average = ''@avg''"

definition CollectionOperation_new ::
    "CollectionOperationType \<Rightarrow> ColumnReference \<Rightarrow> ColumnReference option
       \<Rightarrow> error + CollectionOperation" where
  "CollectionOperation_new t link_column column =
     (if \<not> array (m_property link_column) then Inl CollectionOperationOnNonList
      else
        (case t of
           Count \<Rightarrow>
             (if column \<noteq> None then Inl CountHasNoProperties
              else Inr \<lparr>m_type = t, m_link_column = link_column, m_column = column\<rparr>)
         | _ \<Rightarrow>
             (case column of
                None \<Rightarrow> Inl (AggregateNeedsNumericProperty (name_for_type t))
              | Some c \<Rightarrow>
                  if property_type_is_numeric (column_type c)
                  then Inr \<lparr>m_type = t, m_link_column = link_column, m_column = column\<rparr>
                  else Inl (AggregateNeedsNumericProperty (name_for_type t)))))"

definition CollectionOperation_named ::
    "string \<Rightarrow> ColumnReference \<Rightarrow> ColumnReference option \<Rightarrow> error + CollectionOperation" where
  "CollectionOperation_named operationName link_column column =
     (case type_for_name operationName of
        Inl e \<Rightarrow> Inl e
      | Inr t \<Rightarrow> CollectionOperation_new t link_column column)"

definition validate_comparison_value ::
    "QueryBuilder \<Rightarrow> CollectionOperation \<Rightarrow> QueryMixed \<Rightarrow> error + unit" where
  "validate_comparison_value b operation v =
     (if m_type operation = Count \<or> m_type operation = Average then
        (case get_type v of
           Inl e \<Rightarrow> Inl e
         | Inr t \<Rightarrow>
             if type_is_numeric t then Inr ()
             else Inl (AggregateNeedsNumericValue (name_for_type (m_type operation))))
      else
        (case m_column operation of
           None \<Rightarrow> Inl NullDereference
         | Some c \<Rightarrow>
             (case description v of
                Inl e \<Rightarrow> Inl e
              | Inr d \<Rightarrow>
                  (case is_valid_for_column b v c of
                     Inl e \<Rightarrow> Inl e
                   | Inr ok \<Rightarrow>
                       if ok then Inr ()
                       else Inl (AggregateValueMismatch (name_for_type (m_type operation))
                                   (column_type c) d)))))"

definition validate_comparison_column ::
    "CollectionOperation \<Rightarrow> ColumnReference \<Rightarrow> error + unit" where
  "validate_comparison_column operation column =
     (if m_type operation = Count then
        (if property_type_is_numeric (column_type column) then Inr ()
         else Inl (AggregateNeedsNumericValue (name_for_type (m_type operation))))
      else if property_type_is_numeric (column_type column) then Inr ()
      else
        (case m_column operation of
           None \<Rightarrow> Inl NullDereference
         | Some c \<Rightarrow>
             Inl (AggregatePropertyMismatch (name_for_type (m_type operation))
                    (column_type c) (column_type column))))"

section \<open>The constraint builder\<close>

text \<open>
  What \<open>add_constraint\<close> and its callees are instantiated with on either side: a column
  reference, a value, or \<open>realm::null\<close>.
\<close>

datatype Operand = OColumn ColumnReference | OMixed QueryMixed | ONull

definition add_numeric_constraint ::
    "PropertyType \<Rightarrow> OperatorType \<Rightarrow> Subexpr \<Rightarrow> Subexpr \<Rightarrow> Query \<Rightarrow> error + Query" where
  "add_numeric_constraint datatype operatorType lhs rhs m_query =
     (case operatorType of
        LessThan \<Rightarrow> Inr (and_query (Compare LessThan lhs rhs) m_query)
      | LessThanOrEqual \<Rightarrow> Inr (and_query (Compare LessThanOrEqual lhs rhs) m_query)
      | GreaterThan \<Rightarrow> Inr (and_query (Compare GreaterThan lhs rhs) m_query)
      | GreaterThanOrEqual \<Rightarrow> Inr (and_query (Compare GreaterThanOrEqual lhs rhs) m_query)
      | Equal \<Rightarrow> Inr (and_query (Compare Equal lhs rhs) m_query)
      | NotEqual \<Rightarrow> Inr (and_query (Compare NotEqual lhs rhs) m_query)
      | _ \<Rightarrow> Inl (OperatorNotSupportedForType operatorType datatype))"

definition add_bool_constraint ::
    "PropertyType \<Rightarrow> OperatorType \<Rightarrow> Subexpr \<Rightarrow> Subexpr \<Rightarrow> Query \<Rightarrow> error + Query" where
  "add_bool_constraint datatype operatorType lhs rhs m_query =
     (case operatorType of
        Equal \<Rightarrow> Inr (and_query (Compare Equal lhs rhs) m_query)
      | NotEqual \<Rightarrow> Inr (and_query (Compare NotEqual lhs rhs) m_query)
      | _ \<Rightarrow> Inl (OperatorNotSupportedForType operatorType datatype))"

text \<open>
  The three overloads of \<open>add_substring_constraint\<close>: for \<open>null\<close>, for a value with a
  \<open>size()\<close> (string or binary data), and for a column.
\<close>

definition add_substring_constraint_null :: "Expression \<Rightarrow> Query \<Rightarrow> Query" where
  "add_substring_constraint_null condition m_query = and_query FalseExpression m_query"

definition add_substring_constraint_value :: "'a list \<Rightarrow> Expression \<Rightarrow> Query \<Rightarrow> Query" where
  "add_substring_constraint_value v condition m_query =
     and_query (if length v \<noteq> 0 then condition else FalseExpression) m_query"

definition add_substring_constraint_column :: "Subexpr \<Rightarrow> Expression \<Rightarrow> Query \<Rightarrow> Query" where
  "add_substring_constraint_column v condition m_query =
     and_query (SizeNotZeroAnd v condition) m_query"

text \<open>
  The right-hand side \<open>T value\<close> of the \<open>add_string_constraint\<close> template: \<open>null\<close>,
  \<open>StringData\<close> or \<open>Columns<String>\<close>.
\<close>

datatype StringArg = String_null | String_data string | String_column Subexpr

fun as_subexpr :: "StringArg \<Rightarrow> Subexpr" where
  "as_subexpr String_null = ConstantStringValue None"
| "as_subexpr (String_data s) = ConstantStringValue (Some s)"
| "as_subexpr (String_column c) = c"

fun add_substring_constraint :: "StringArg \<Rightarrow> Expression \<Rightarrow> Query \<Rightarrow> Query" where
  "add_substring_constraint String_null condition m_query =
     add_substring_constraint_null condition m_query"
| "add_substring_constraint (String_data s) condition m_query =
     add_substring_constraint_value s condition m_query"
| "add_substring_constraint (String_column c) condition m_query =
     add_substring_constraint_column c condition m_query"

definition make_constraint :: "bool \<Rightarrow> Subexpr \<Rightarrow> Subexpr \<Rightarrow> Comparator \<Rightarrow> Expression" where
  "make_constraint caseSensitive left right comparator =
     (if caseSensitive then CFCompare (CaseSensitive comparator) left right
      else CFCompare (CaseInsensitive_of comparator) left right)"

definition add_string_constraint ::
    "OperatorType \<Rightarrow> ComparisonOptions \<Rightarrow> Subexpr \<Rightarrow> StringArg \<Rightarrow> Query \<Rightarrow> error + Query" where
  "add_string_constraint operatorType predicateOptions column v m_query =
     (let caseSensitive = \<not> is_set predicateOptions CaseInsensitive;
          diacriticSensitive = \<not> is_set predicateOptions DiacriticInsensitive
      in if diacriticSensitive then
           (case operatorType of
              BeginsWith \<Rightarrow>
                Inr (add_substring_constraint v
                       (StringCompare BeginsWith column (as_subexpr v) caseSensitive) m_query)
            | EndsWith \<Rightarrow>
                Inr (add_substring_constraint v
                       (StringCompare EndsWith column (as_subexpr v) caseSensitive) m_query)
            | Contains \<Rightarrow>
                Inr (add_substring_constraint v
                       (StringCompare Contains column (as_subexpr v) caseSensitive) m_query)
            | Equal \<Rightarrow>
                Inr (and_query (StringCompare Equal column (as_subexpr v) caseSensitive) m_query)
            | NotEqual \<Rightarrow>
                Inr (and_query (StringCompare NotEqual column (as_subexpr v) caseSensitive) m_query)
            | Like \<Rightarrow>
                Inr (and_query (StringCompare Like column (as_subexpr v) caseSensitive) m_query)
            | _ \<Rightarrow> Inl (OperatorNotSupportedForString operatorType))
         else
           (let left = column; right = as_subexpr v
            in case operatorType of
                 BeginsWith \<Rightarrow>
                   Inr (add_substring_constraint v
                          (make_constraint caseSensitive left right
                             (CF_ContainsSubstring
                                (kCFCompareDiacriticInsensitive OR kCFCompareAnchored)))
                          m_query)
               | EndsWith \<Rightarrow>
                   Inr (add_substring_constraint v
                          (make_constraint caseSensitive left right
                             (CF_ContainsSubstring
                                (kCFCompareDiacriticInsensitive OR kCFCompareAnchored
                                   OR kCFCompareBackwards)))
                          m_query)
               | Contains \<Rightarrow>
                   Inr (add_substring_constraint v
                          (make_constraint caseSensitive left right
                             (CF_ContainsSubstring kCFCompareDiacriticInsensitive))
                          m_query)
               | NotEqual \<Rightarrow>
                   Inr (and_query
                          (make_constraint caseSensitive left right
                             (CF_Equal kCFCompareDiacriticInsensitive))
                          (Not_query m_query))
               | Equal \<Rightarrow>
                   Inr (and_query
                          (make_constraint caseSensitive left right
                             (CF_Equal kCFCompareDiacriticInsensitive))
                          m_query)
               | Like \<Rightarrow> Inl LikeNotSupportedDiacriticInsensitive
               | _ \<Rightarrow> Inl (OperatorNotSupportedForString operatorType)))"

text \<open>The overload with the value on the left and the column on the right.\<close>

definition add_string_constraint_value_left ::
    "OperatorType \<Rightarrow> ComparisonOptions \<Rightarrow> string \<Rightarrow> Subexpr \<Rightarrow> Query \<Rightarrow> error + Query" where
  "add_string_constraint_value_left operatorType predicateOptions v column m_query =
     (case operatorType of
        Equal \<Rightarrow> add_string_constraint operatorType predicateOptions column (String_data v) m_query
      | NotEqual \<Rightarrow>
          add_string_constraint operatorType predicateOptions column (String_data v) m_query
      | _ \<Rightarrow> Inl (OperatorNotSupportedForStringKeyPathRight operatorType))"

text \<open>
  \<open>add_binary_constraint\<close> on \<open>BinaryData\<close>; \<open>None\<close> is the null \<open>BinaryData()\<close>, of size 0.
\<close>

definition add_binary_constraint_data ::
    "OperatorType \<Rightarrow> ColumnReference \<Rightarrow> 8 word list option \<Rightarrow> Query \<Rightarrow> error + Query" where
  "add_binary_constraint_data operatorType column v m_query =
     (if has_links column then Inl DataOverLink
      else
        (let index = m_col column;
             bytes = (case v of None \<Rightarrow> [] | Some bs \<Rightarrow> bs)
         in case operatorType of
              BeginsWith \<Rightarrow>
                Inr (add_substring_constraint_value bytes
                       (BinaryCompare BeginsWith index v) m_query)
            | EndsWith \<Rightarrow>
                Inr (add_substring_constraint_value bytes
                       (BinaryCompare EndsWith index v) m_query)
            | Contains \<Rightarrow>
                Inr (add_substring_constraint_value bytes
                       (BinaryCompare Contains index v) m_query)
            | Equal \<Rightarrow> Inr (and_query (BinaryCompare Equal index v) m_query)
            | NotEqual \<Rightarrow> Inr (and_query (BinaryCompare NotEqual index v) m_query)
            | _ \<Rightarrow> Inl (OperatorNotSupportedForBinary operatorType)))"

definition add_binary_constraint_mixed ::
    "OperatorType \<Rightarrow> ColumnReference \<Rightarrow> QueryMixed \<Rightarrow> Query \<Rightarrow> error + Query" where
  "add_binary_constraint_mixed operatorType column v m_query =
     (case v of
        MBinary bs \<Rightarrow> add_binary_constraint_data operatorType column (Some bs) m_query
      | _ \<Rightarrow> Inl AssertionFailed)"

definition add_binary_constraint ::
    "OperatorType \<Rightarrow> Operand \<Rightarrow> Operand \<Rightarrow> Query \<Rightarrow> error + Query" where
  "add_binary_constraint operatorType lhs rhs m_query =
     (case (lhs, rhs) of
        (OColumn column, OMixed v) \<Rightarrow> add_binary_constraint_mixed operatorType column v m_query
      | (OColumn column, ONull) \<Rightarrow> add_binary_constraint_data operatorType column None m_query
      | (OMixed v, OColumn column) \<Rightarrow>
          (if operatorType = Equal \<or> operatorType = NotEqual
           then add_binary_constraint_mixed operatorType column v m_query
           else Inl (OperatorNotSupportedForBinaryKeyPathRight operatorType))
      | (OColumn l, OColumn r) \<Rightarrow> Inl TwoDataProperties
      | _ \<Rightarrow> Inl Unreachable)"

text \<open>
  \<open>add_link_constraint\<close> against an object: the value is a link, a pair of the object's
  type name and its key; the table \<open>class_<type>\<close> is looked up in the group and
  dereferenced.
\<close>

definition add_link_constraint_value ::
    "QueryBuilder \<Rightarrow> OperatorType \<Rightarrow> ColumnReference \<Rightarrow> QueryMixed \<Rightarrow> Query \<Rightarrow> error + Query" where
  "add_link_constraint_value b operatorType column v m_query =
     (case v of
        MLink object_type obj_key \<Rightarrow>
          (case get_table (m_group b) (class_table_name object_type) of
             None \<Rightarrow> Inl NullDereference
           | Some table \<Rightarrow>
               if \<not> is_valid table obj_key then
                 (if array (m_property column) then
                    (case resolve b R_Link column None of
                       Inl e \<Rightarrow> Inl e
                     | Inr lc \<Rightarrow>
                         add_bool_constraint PropertyType_Object operatorType lc NullValue m_query)
                  else if operatorType = Equal then Inr (and_query FalseExpression m_query)
                  else Inr (and_query TrueExpression m_query))
               else
                 (case resolve b R_Link column None of
                    Inl e \<Rightarrow> Inl e
                  | Inr lc \<Rightarrow>
                      add_bool_constraint PropertyType_Object operatorType lc
                        (ObjValue (class_table_name object_type) obj_key) m_query))
      | _ \<Rightarrow> Inl AssertionFailed)"

definition add_link_constraint_null ::
    "QueryBuilder \<Rightarrow> OperatorType \<Rightarrow> ColumnReference \<Rightarrow> Query \<Rightarrow> error + Query" where
  "add_link_constraint_null b operatorType column m_query =
     (case resolve b R_Link column None of
        Inl e \<Rightarrow> Inl e
      | Inr lc \<Rightarrow> add_bool_constraint PropertyType_Object operatorType lc NullValue m_query)"

definition add_link_constraint ::
    "QueryBuilder \<Rightarrow> OperatorType \<Rightarrow> Operand \<Rightarrow> Operand \<Rightarrow> Query \<Rightarrow> error + Query" where
  "add_link_constraint b operatorType lhs rhs m_query =
     (case (lhs, rhs) of
        (OColumn column, OMixed v) \<Rightarrow> add_link_constraint_value b operatorType column v m_query
      | (OColumn column, ONull) \<Rightarrow> add_link_constraint_null b operatorType column m_query
      | (OMixed obj, OColumn column) \<Rightarrow>
          add_link_constraint_value b operatorType column obj m_query
      | (OColumn l, OColumn r) \<Rightarrow> Inl TwoListProperties
      | _ \<Rightarrow> Inl Unreachable)"

text \<open>
  \<open>convert<T>\<close> is \<open>QueryMixed::get<T>\<close>, with its own switch for \<open>ObjectId\<close>. The
  arithmetic \<open>get<T>\<close> switch over the tag and return the active member converted to
  \<open>T\<close>; a tag without a case runs into \<open>REALM_UNREACHABLE\<close>. \<open>true\<close> is 1, and
  \<open>0x3F800000\<close> and \<open>0x3FF0000000000000\<close> are the bits of 1 as a \<open>float\<close> and as a
  \<open>double\<close>. The other \<open>get<T>\<close> assert the tag.
\<close>

definition of_undefined :: "'a option \<Rightarrow> ('a \<Rightarrow> Subexpr) \<Rightarrow> error + Subexpr" where
  "of_undefined x k = (case x of None \<Rightarrow> Inl UndefinedConversion | Some y \<Rightarrow> Inr (k y))"

definition convert :: "Conversions \<Rightarrow> Requested \<Rightarrow> QueryMixed \<Rightarrow> error + Subexpr" where
  "convert cv T v =
     (case T of
        R_bool \<Rightarrow> (case get_bool v of None \<Rightarrow> Inl Unreachable | Some x \<Rightarrow> Inr (BoolValue x))
      | R_Int \<Rightarrow>
          (case v of
             MBool x \<Rightarrow> Inr (IntValue (if x then 1 else 0))
           | MInt i \<Rightarrow> Inr (IntValue i)
           | MFloat f \<Rightarrow> of_undefined (int_of_float cv f) IntValue
           | MDouble d \<Rightarrow> of_undefined (int_of_double cv d) IntValue
           | _ \<Rightarrow> Inl Unreachable)
      | R_Float \<Rightarrow>
          (case v of
             MBool x \<Rightarrow> Inr (FloatValue (if x then 0x3F800000 else 0))
           | MInt i \<Rightarrow> Inr (FloatValue (float_of_int cv i))
           | MFloat f \<Rightarrow> Inr (FloatValue f)
           | MDouble d \<Rightarrow> of_undefined (float_of_double cv d) FloatValue
           | _ \<Rightarrow> Inl Unreachable)
      | R_Double \<Rightarrow>
          (case v of
             MBool x \<Rightarrow> Inr (DoubleValue (if x then 0x3FF0000000000000 else 0))
           | MInt i \<Rightarrow> Inr (DoubleValue (double_of_int cv i))
           | MFloat f \<Rightarrow> Inr (DoubleValue (double_of_float cv f))
           | MDouble d \<Rightarrow> Inr (DoubleValue d)
           | _ \<Rightarrow> Inl Unreachable)
      | R_Timestamp \<Rightarrow>
          (case v of MTimestamp s n \<Rightarrow> Inr (TimestampValue s n) | _ \<Rightarrow> Inl AssertionFailed)
      | R_Decimal128 \<Rightarrow>
          (case v of
             MBool x \<Rightarrow> Inr (DecimalValue (decimal_of_int cv (if x then 1 else 0)))
           | MInt i \<Rightarrow> Inr (DecimalValue (decimal_of_int cv i))
           | MFloat f \<Rightarrow> Inr (DecimalValue (decimal_of_float cv f))
           | MDouble d \<Rightarrow> Inr (DecimalValue (decimal_of_double cv d))
           | MString str \<Rightarrow> Inr (DecimalValue (decimal_of_string cv str))
           | MDecimal d \<Rightarrow> Inr (DecimalValue d)
           | _ \<Rightarrow> Inl Unreachable)
      | R_ObjectId \<Rightarrow>
          (case get_type v of
             Inl e \<Rightarrow> Inl e
           | Inr t \<Rightarrow>
               (case v of
                  MObjectId i \<Rightarrow> Inr (ObjectIdValue i)
                | MString str \<Rightarrow> Inr (ObjectIdValue (object_id_of_string cv str))
                | _ \<Rightarrow> Inl CannotConvertToObjectId))
      | R_String \<Rightarrow>
          (case v of MString s \<Rightarrow> Inr (ConstantStringValue (Some s)) | _ \<Rightarrow> Inl AssertionFailed)
      | R_Link \<Rightarrow> Inl Unreachable)"

definition value_of_type :: "QueryBuilder \<Rightarrow> Requested \<Rightarrow> Operand \<Rightarrow> error + Subexpr" where
  "value_of_type b T x =
     (case x of
        ONull \<Rightarrow> Inr NullValue
      | OMixed v \<Rightarrow> convert (conversions b) T v
      | OColumn column \<Rightarrow> resolve b T column None)"

text \<open>
  \<open>value_of_type<String>\<close>, keeping apart the three types the overloads of
  \<open>add_string_constraint\<close> are chosen by.
\<close>

definition string_value_of_type :: "QueryBuilder \<Rightarrow> Operand \<Rightarrow> error + StringArg" where
  "string_value_of_type b x =
     (case x of
        ONull \<Rightarrow> Inr String_null
      | OMixed v \<Rightarrow> (case v of MString s \<Rightarrow> Inr (String_data s) | _ \<Rightarrow> Inl AssertionFailed)
      | OColumn column \<Rightarrow>
          (case resolve b R_String column None of
             Inl e \<Rightarrow> Inl e
           | Inr c \<Rightarrow> Inr (String_column c)))"

text \<open>Both operands as \<open>T\<close>, the left one first, then the constraint \<open>k\<close> on them.\<close>

definition with_values_of_type ::
    "QueryBuilder \<Rightarrow> Requested \<Rightarrow> Operand \<Rightarrow> Operand
       \<Rightarrow> (Subexpr \<Rightarrow> Subexpr \<Rightarrow> error + Query) \<Rightarrow> error + Query" where
  "with_values_of_type b T lhs rhs k =
     (case value_of_type b T lhs of
        Inl e \<Rightarrow> Inl e
      | Inr l \<Rightarrow>
          (case value_of_type b T rhs of
             Inl e \<Rightarrow> Inl e
           | Inr r \<Rightarrow> k l r))"

text \<open>
  \<open>do_add_constraint\<close>. The overload for a value and \<open>null\<close> fails; the template is
  never instantiated with a value on both sides or with \<open>null\<close> on the left.
\<close>

definition do_add_constraint ::
    "QueryBuilder \<Rightarrow> PropertyType \<Rightarrow> OperatorType \<Rightarrow> ComparisonOptions \<Rightarrow> Operand \<Rightarrow> Operand
       \<Rightarrow> Query \<Rightarrow> error + Query" where
  "do_add_constraint b t operatorType predicateOptions lhs rhs m_query =
     (case (lhs, rhs) of
        (OMixed l, ONull) \<Rightarrow> Inl MustCompareKeyPath
      | (OMixed l, OMixed r) \<Rightarrow> Inl Unreachable
      | (ONull, r) \<Rightarrow> Inl Unreachable
      | _ \<Rightarrow>
        (case t of
           PropertyType_Bool \<Rightarrow>
             with_values_of_type b R_bool lhs rhs
               (\<lambda>l r. add_bool_constraint t operatorType l r m_query)
         | PropertyType_ObjectId \<Rightarrow>
             with_values_of_type b R_ObjectId lhs rhs
               (\<lambda>l r. add_bool_constraint t operatorType l r m_query)
         | PropertyType_Date \<Rightarrow>
             with_values_of_type b R_Timestamp lhs rhs
               (\<lambda>l r. add_numeric_constraint t operatorType l r m_query)
         | PropertyType_Double \<Rightarrow>
             with_values_of_type b R_Double lhs rhs
               (\<lambda>l r. add_numeric_constraint t operatorType l r m_query)
         | PropertyType_Float \<Rightarrow>
             with_values_of_type b R_Float lhs rhs
               (\<lambda>l r. add_numeric_constraint t operatorType l r m_query)
         | PropertyType_Int \<Rightarrow>
             with_values_of_type b R_Int lhs rhs
               (\<lambda>l r. add_numeric_constraint t operatorType l r m_query)
         | PropertyType_Decimal \<Rightarrow>
             with_values_of_type b R_Decimal128 lhs rhs
               (\<lambda>l r. add_numeric_constraint t operatorType l r m_query)
         | PropertyType_String \<Rightarrow>
             (case string_value_of_type b lhs of
                Inl e \<Rightarrow> Inl e
              | Inr l \<Rightarrow>
                  (case string_value_of_type b rhs of
                     Inl e \<Rightarrow> Inl e
                   | Inr r \<Rightarrow>
                       (case (l, r) of
                          (String_column column, v) \<Rightarrow>
                            add_string_constraint operatorType predicateOptions column v m_query
                        | (String_data v, String_column column) \<Rightarrow>
                            add_string_constraint_value_left operatorType predicateOptions v
                              column m_query
                        | _ \<Rightarrow> Inl Unreachable)))
         | PropertyType_Data \<Rightarrow> add_binary_constraint operatorType lhs rhs m_query
         | PropertyType_Object \<Rightarrow> add_link_constraint b operatorType lhs rhs m_query
         | PropertyType_LinkingObjects \<Rightarrow> add_link_constraint b operatorType lhs rhs m_query
         | _ \<Rightarrow> Inl (ObjectTypeNotSupported t)))"

fun is_nsnull :: "Operand \<Rightarrow> bool" where
  "is_nsnull (OMixed v) = is_null v"
| "is_nsnull _ = False"

definition add_constraint ::
    "QueryBuilder \<Rightarrow> PropertyType \<Rightarrow> OperatorType \<Rightarrow> ComparisonOptions \<Rightarrow> Operand \<Rightarrow> Operand
       \<Rightarrow> Query \<Rightarrow> error + Query" where
  "add_constraint b t operatorType predicateOptions lhs rhs m_query =
     (if is_nsnull lhs then Inl NilOnLeft
      else if is_nsnull rhs
        then do_add_constraint b t operatorType predicateOptions lhs ONull m_query
      else do_add_constraint b t operatorType predicateOptions lhs rhs m_query)"

text \<open>
  \<open>where\<close> on the table of an object schema: \<open>get_table(m_group, schema).where()\<close>.
\<close>

definition where_for :: "Group \<Rightarrow> RLMObjectSchema \<Rightarrow> error + Query" where
  "where_for g objectSchema =
     (case get_table_for g objectSchema of
        Inl e \<Rightarrow> Inl e
      | Inr t \<Rightarrow> Inr (where (class_table_name (objectName objectSchema))))"

text \<open>
  \<open>add_between_constraint\<close>. Over a to-many link it builds a subquery on the link's target
  table with a builder of its own, for the column without its links, and compares the
  count of linked rows the subquery matches with 0.
\<close>

function add_between_constraint ::
    "QueryBuilder \<Rightarrow> ColumnReference \<Rightarrow> QueryMixed \<Rightarrow> Query \<Rightarrow> error + Query" where
  "add_between_constraint b column v m_query =
     (if has_any_to_many_links column then
        (case last_link_column b column of
           Inl e \<Rightarrow> Inl e
         | Inr link_column \<Rightarrow>
         (case link_target_object_schema b link_column of
            Inl e \<Rightarrow> Inl e
          | Inr target \<Rightarrow>
          (case where_for (m_group b) target of
             Inl e \<Rightarrow> Inl e
           | Inr subquery \<Rightarrow>
           (case column_ignoring_links b column subquery of
              Inl e \<Rightarrow> Inl e
            | Inr column' \<Rightarrow>
            (case add_between_constraint b column' v subquery of
               Inl e \<Rightarrow> Inl e
             | Inr subquery' \<Rightarrow>
             (case resolve b R_Link link_column (Some subquery') of
                Inl e \<Rightarrow> Inl e
              | Inr lc \<Rightarrow>
                  Inr (and_query (Compare GreaterThan (LinkCount lc) (IntValue 0)) m_query)))))))
      else
        (case get_type v of
           Inl e \<Rightarrow> Inl e
         | Inr t \<Rightarrow>
             if t \<noteq> type_LinkList then Inl BetweenRequiresTwoValues
             else
               (case get_array v of
                  [lo, hi] \<Rightarrow>
                    (case is_valid_for_column b lo column of
                       Inl e \<Rightarrow> Inl e
                     | Inr ok_lo \<Rightarrow>
                         if \<not> ok_lo
                         then Inl (BetweenArrayObjectsType (type (m_property column)))
                         else
                           (case is_valid_for_column b hi column of
                              Inl e \<Rightarrow> Inl e
                            | Inr ok_hi \<Rightarrow>
                                if \<not> ok_hi
                                then Inl (BetweenArrayObjectsType (type (m_property column)))
                                else
                                  (case add_constraint b (column_type column)
                                          GreaterThanOrEqual None_options (OColumn column)
                                          (OMixed lo) (group m_query) of
                                     Inl e \<Rightarrow> Inl e
                                   | Inr q1 \<Rightarrow>
                                       (case add_constraint b (column_type column)
                                               LessThanOrEqual None_options (OColumn column)
                                               (OMixed hi) q1 of
                                          Inl e \<Rightarrow> Inl e
                                        | Inr q2 \<Rightarrow> Inr (end_group q2)))))
                | _ \<Rightarrow> Inl BetweenRequiresTwoValues)))"
  by pat_completeness auto
termination
  by (relation "measure (\<lambda>(b, column, v, q). if has_any_to_many_links column then 1 else 0)")
     (auto simp: column_ignoring_links_def ColumnReference_new_def has_any_to_many_links_def
           split: sum.splits)

declare add_between_constraint.simps [simp del]

section \<open>Constraints on collection operations\<close>

datatype CollectionOperand = C_operation CollectionOperation | C_operand Operand

text \<open>
  \<open>value_of_type_with_collection_operation<T, Op>\<close>: a collection operation becomes the
  count of the link column, or the aggregate of the target column over it; anything else
  goes through \<open>value_of_type<T>\<close>.
\<close>

definition value_of_type_with_collection_operation ::
    "QueryBuilder \<Rightarrow> Requested \<Rightarrow> CollectionOperationType \<Rightarrow> CollectionOperand
       \<Rightarrow> error + Subexpr" where
  "value_of_type_with_collection_operation b T Operation x =
     (case x of
        C_operand y \<Rightarrow> value_of_type b T y
      | C_operation operation \<Rightarrow>
          (if m_type operation \<noteq> Operation then Inl AssertionFailed
           else
             (case resolve b R_Link (m_link_column operation) None of
                Inl e \<Rightarrow> Inl e
              | Inr lc \<Rightarrow>
                  if Operation = Count then Inr (LinkCount lc)
                  else
                    (case m_column operation of
                       None \<Rightarrow> Inl NullDereference
                     | Some c \<Rightarrow> Inr (SubColumnAggregate Operation T lc (m_col c))))))"

definition with_collection_values ::
    "QueryBuilder \<Rightarrow> Requested \<Rightarrow> CollectionOperationType \<Rightarrow> CollectionOperand
       \<Rightarrow> CollectionOperand \<Rightarrow> (Subexpr \<Rightarrow> Subexpr \<Rightarrow> error + Query) \<Rightarrow> error + Query" where
  "with_collection_values b T Operation lhs rhs k =
     (case value_of_type_with_collection_operation b T Operation lhs of
        Inl e \<Rightarrow> Inl e
      | Inr l \<Rightarrow>
          (case value_of_type_with_collection_operation b T Operation rhs of
             Inl e \<Rightarrow> Inl e
           | Inr r \<Rightarrow> k l r))"

definition add_collection_operation_constraint_typed ::
    "QueryBuilder \<Rightarrow> CollectionOperationType \<Rightarrow> PropertyType \<Rightarrow> OperatorType
       \<Rightarrow> CollectionOperand \<Rightarrow> CollectionOperand \<Rightarrow> Query \<Rightarrow> error + Query" where
  "add_collection_operation_constraint_typed b Operation propertyType operatorType lhs rhs m_query =
     (case propertyType of
        PropertyType_Int \<Rightarrow>
          with_collection_values b R_Int Operation lhs rhs
            (\<lambda>l r. add_numeric_constraint propertyType operatorType l r m_query)
      | PropertyType_Float \<Rightarrow>
          with_collection_values b R_Float Operation lhs rhs
            (\<lambda>l r. add_numeric_constraint propertyType operatorType l r m_query)
      | PropertyType_Double \<Rightarrow>
          with_collection_values b R_Double Operation lhs rhs
            (\<lambda>l r. add_numeric_constraint propertyType operatorType l r m_query)
      | PropertyType_Decimal \<Rightarrow>
          with_collection_values b R_Decimal128 Operation lhs rhs
            (\<lambda>l r. add_numeric_constraint propertyType operatorType l r m_query)
      | _ \<Rightarrow> Inl AssertionFailed)"

definition add_collection_operation_constraint ::
    "QueryBuilder \<Rightarrow> OperatorType \<Rightarrow> CollectionOperation \<Rightarrow> CollectionOperand
       \<Rightarrow> CollectionOperand \<Rightarrow> Query \<Rightarrow> error + Query" where
  "add_collection_operation_constraint b operatorType collectionOperation lhs rhs m_query =
     (case m_type collectionOperation of
        Count \<Rightarrow>
          with_collection_values b R_Int Count lhs rhs
            (\<lambda>l r. add_numeric_constraint PropertyType_Int operatorType l r m_query)
      | Operation \<Rightarrow>
          (case m_column collectionOperation of
             None \<Rightarrow> Inl NullDereference
           | Some c \<Rightarrow>
               add_collection_operation_constraint_typed b Operation (column_type c)
                 operatorType lhs rhs m_query))"

definition key_path_contains_collection_operator :: "string \<Rightarrow> bool" where
  "key_path_contains_collection_operator keyPath = (CHR ''@'' \<in> set keyPath)"

text \<open>
  \<open>get_collection_operation_name_from_key_path\<close> returns the operation's name, the key
  path before it and the key after it; \<open>at\<close> and \<open>dot\<close> are kept as offsets, \<open>n\<close> is the offset of the end.
\<close>

definition get_collection_operation_name_from_key_path ::
    "string \<Rightarrow> error + (string \<times> string \<times> string option)" where
  "get_collection_operation_name_from_key_path keyPath =
     (let at = length (takeWhile (\<lambda>c. c \<noteq> CHR ''@'') keyPath);
          n = length keyPath
      in if \<not> (at \<noteq> 0 \<and> at \<noteq> n \<and> at + 1 \<noteq> n \<and> keyPath ! (at - 1) = CHR ''.'')
         then Inl (InvalidKeyPath keyPath)
         else
           (let leadingKeyPath = take (at - 1) keyPath;
                dot = at + 1 + length (takeWhile (\<lambda>c. c \<noteq> CHR ''.'') (drop (at + 1) keyPath))
            in if dot = n then Inr (drop at keyPath, leadingKeyPath, None)
               else Inr (take (dot - at) (drop at keyPath), leadingKeyPath,
                         Some (drop (dot + 1) keyPath))))"

definition collection_operation_from_key_path ::
    "QueryBuilder \<Rightarrow> Query \<Rightarrow> RLMObjectSchema \<Rightarrow> string \<Rightarrow> error + CollectionOperation" where
  "collection_operation_from_key_path b m_query desc keyPath =
     (case get_collection_operation_name_from_key_path keyPath of
        Inl e \<Rightarrow> Inl e
      | Inr (collectionOperationName, leadingKeyPath, trailingKey) \<Rightarrow>
          (case column_reference_from_key_path b m_query desc leadingKeyPath True of
             Inl e \<Rightarrow> Inl e
           | Inr linkColumn \<Rightarrow>
               (case trailingKey of
                  None \<Rightarrow> CollectionOperation_named collectionOperationName linkColumn None
                | Some k \<Rightarrow>
                    if CHR ''.'' \<in> set k then Inl SingleLevelKeyOnly
                    else
                      (case column_reference_from_key_path b m_query desc
                              (leadingKeyPath @ ''.'' @ k) True of
                         Inl e \<Rightarrow> Inl e
                       | Inr column \<Rightarrow>
                           CollectionOperation_named collectionOperationName linkColumn
                             (Some column)))))"

section \<open>Comparisons of a key path with a value, and of two key paths\<close>

text \<open>
  The functions below take the comparison predicate they were called for. A predicate made
  by another constructor has no operator, so reading it is reading an uninitialised member.
\<close>

fun apply_collection_operator_expression ::
    "QueryBuilder \<Rightarrow> RLMObjectSchema \<Rightarrow> string \<Rightarrow> QueryMixed \<Rightarrow> Predicate \<Rightarrow> Query
       \<Rightarrow> error + Query" where
  "apply_collection_operator_expression b desc keyPath v (Comparison l r modifier op opts) m_query =
     (case collection_operation_from_key_path b m_query desc keyPath of
        Inl e \<Rightarrow> Inl e
      | Inr operation \<Rightarrow>
          (case validate_comparison_value b operation v of
             Inl e \<Rightarrow> Inl e
           | Inr u \<Rightarrow>
               if expr_type l = KeyPath
               then add_collection_operation_constraint b op operation
                      (C_operation operation) (C_operand (OMixed v)) m_query
               else add_collection_operation_constraint b op operation
                      (C_operand (OMixed v)) (C_operation operation) m_query))"
| "apply_collection_operator_expression b desc keyPath v _ m_query = Inl UninitializedRead"

text \<open>
  The loop of the IN clause over the items of the array: \<open>Or\<close> before every item but the
  first, the item validated against the column, then an equality constraint.
\<close>

fun add_in_items ::
    "QueryBuilder \<Rightarrow> ColumnReference \<Rightarrow> ComparisonOptions \<Rightarrow> RLMObjectSchema \<Rightarrow> string
       \<Rightarrow> QueryMixed list \<Rightarrow> bool \<Rightarrow> Query \<Rightarrow> error + Query" where
  "add_in_items b column opts desc keyPath [] first m_query = Inr m_query"
| "add_in_items b column opts desc keyPath (item # items) first m_query =
     (case validate_property_value b column item ExpectedObjectOfTypeIn desc keyPath of
        Inl e \<Rightarrow> Inl e
      | Inr u \<Rightarrow>
          (case add_constraint b (column_type column) Equal opts (OColumn column) (OMixed item)
                  (if \<not> first then Or_query m_query else m_query) of
             Inl e \<Rightarrow> Inl e
           | Inr q \<Rightarrow> add_in_items b column opts desc keyPath items False q))"

fun apply_value_expression ::
    "QueryBuilder \<Rightarrow> RLMObjectSchema \<Rightarrow> string \<Rightarrow> QueryMixed \<Rightarrow> Predicate \<Rightarrow> Query
       \<Rightarrow> error + Query" where
  "apply_value_expression b desc keyPath v (Comparison l r modifier op opts) m_query =
     (if key_path_contains_collection_operator keyPath
      then apply_collection_operator_expression b desc keyPath v
             (Comparison l r modifier op opts) m_query
      else
        (let isAny = (modifier = Any)
         in case column_reference_from_key_path b m_query desc keyPath isAny of
              Inl e \<Rightarrow> Inl e
            | Inr column \<Rightarrow>
                if op = Between then add_between_constraint b column v m_query
                else if op = In then
                  (case get_type v of
                     Inl e \<Rightarrow> Inl e
                   | Inr t \<Rightarrow>
                       if t \<noteq> type_LinkList then Inl InRequiresArray
                       else
                         (case add_in_items b column opts desc keyPath (get_array v) True
                                 (group m_query) of
                            Inl e \<Rightarrow> Inl e
                          | Inr q \<Rightarrow>
                              if get_array v = []
                              then Inr (end_group (and_query FalseExpression q))
                              else Inr (end_group q)))
                else
                  (case validate_property_value b column v ExpectedObjectOfType desc keyPath of
                     Inl e \<Rightarrow> Inl e
                   | Inr u \<Rightarrow>
                       if expr_type l = KeyPath
                       then add_constraint b (column_type column) op opts
                              (OColumn column) (OMixed v) m_query
                       else add_constraint b (column_type column) op opts
                              (OMixed v) (OColumn column) m_query)))"
| "apply_value_expression b desc keyPath v _ m_query = Inl UninitializedRead"

fun apply_column_expression ::
    "QueryBuilder \<Rightarrow> RLMObjectSchema \<Rightarrow> string \<Rightarrow> string \<Rightarrow> Predicate \<Rightarrow> Query
       \<Rightarrow> error + Query" where
  "apply_column_expression b desc leftKeyPath rightKeyPath (Comparison l r modifier op opts) m_query =
     (let left_key_path_contains_collection_operator =
            key_path_contains_collection_operator leftKeyPath;
          right_key_path_contains_collection_operator =
            key_path_contains_collection_operator rightKeyPath
      in if \<not> (\<not> left_key_path_contains_collection_operator
                \<or> \<not> right_key_path_contains_collection_operator)
         then Inl AggregateVersusAggregate
         else if left_key_path_contains_collection_operator then
           (case collection_operation_from_key_path b m_query desc leftKeyPath of
              Inl e \<Rightarrow> Inl e
            | Inr left \<Rightarrow>
                (case column_reference_from_key_path b m_query desc rightKeyPath False of
                   Inl e \<Rightarrow> Inl e
                 | Inr right \<Rightarrow>
                     (case validate_comparison_column left right of
                        Inl e \<Rightarrow> Inl e
                      | Inr u \<Rightarrow>
                          add_collection_operation_constraint b op left
                            (C_operation left) (C_operand (OColumn right)) m_query)))
         else if right_key_path_contains_collection_operator then
           (case column_reference_from_key_path b m_query desc leftKeyPath False of
              Inl e \<Rightarrow> Inl e
            | Inr left \<Rightarrow>
                (case collection_operation_from_key_path b m_query desc rightKeyPath of
                   Inl e \<Rightarrow> Inl e
                 | Inr right \<Rightarrow>
                     (case validate_comparison_column right left of
                        Inl e \<Rightarrow> Inl e
                      | Inr u \<Rightarrow>
                          add_collection_operation_constraint b op right
                            (C_operand (OColumn left)) (C_operation right) m_query)))
         else
           (let isAny = False
            in case column_reference_from_key_path b m_query desc leftKeyPath isAny of
                 Inl e \<Rightarrow> Inl e
               | Inr left \<Rightarrow>
                   (case column_reference_from_key_path b m_query desc rightKeyPath isAny of
                      Inl e \<Rightarrow> Inl e
                    | Inr right \<Rightarrow>
                        if column_type left \<noteq> column_type right
                        then Inl (ComparisonBetweenProperties (column_type left)
                                    (column_type right))
                        else add_constraint b (column_type left) op opts
                               (OColumn left) (OColumn right) m_query)))"
| "apply_column_expression b desc leftKeyPath rightKeyPath _ m_query = Inl UninitializedRead"

section \<open>The predicate compiler\<close>

text \<open>
  The first part of the comparison case of \<open>apply_predicate\<close>: the modifier checks, and
  for BETWEEN and IN the reclassification of the right operand or the rewriting of
  \<open>value IN key.path\<close> into \<open>ANY key.path == value\<close>. It gives the predicate and the two
  expression types the dispatch that follows works with.
\<close>

definition classify_comparison ::
    "PredicateExpression \<Rightarrow> PredicateExpression \<Rightarrow> Modifier \<Rightarrow> OperatorType \<Rightarrow> ComparisonOptions
       \<Rightarrow> error + (Predicate \<times> PredicateExpression \<times> PredicateExpression
                    \<times> ExpressionType \<times> ExpressionType)" where
  "classify_comparison l r modifier op opts =
     (if modifier = All then Inl AllModifierNotSupported
      else
        (let exp1Type = expr_type l; exp2Type = expr_type r
         in if modifier = Any \<and> \<not> (exp1Type = KeyPath \<and> exp2Type = ConstantValue)
            then Inl AnyModifierNeedsKeyPathAndValue
            else if op = Between \<or> op = In then
              (if exp1Type = KeyPath \<and> (exp2Type = Aggregate \<or> exp2Type = ConstantValue)
               then Inr (Comparison l r modifier op opts, l, r, exp1Type, ConstantValue)
               else if op = In \<and> exp1Type = ConstantValue \<and> exp2Type = KeyPath
               then Inr (Comparison r l Any Equal None_options, r, l, KeyPath, ConstantValue)
               else if op = Between then Inl BetweenNeedsKeyPathAndAggregate
               else Inl InNeedsKeyPathAndAggregate)
            else Inr (Comparison l r modifier op opts, l, r, exp1Type, exp2Type)))"

text \<open>
  What \<open>apply_subquery_count_expression\<close> does before it compiles the nested predicate:
  the check of the right-hand side, the collection column, the schema of its members and
  a fresh query on their table. The condition of the check is
  \<open>right.type() == ConstantValue && right.value().get_type() == type_Int\<close>: on a constant the
  second operand is evaluated, and \<open>get_type\<close> asserts that the constant is not null.
\<close>

definition subquery_count_scope ::
    "QueryBuilder \<Rightarrow> Query \<Rightarrow> RLMObjectSchema \<Rightarrow> PredicateExpression \<Rightarrow> PredicateExpression
       \<Rightarrow> error + (64 word \<times> ColumnReference \<times> RLMObjectSchema \<times> Query)" where
  "subquery_count_scope b m_query objectSchema subqueryExpression r =
     (if expr_type r \<noteq> ConstantValue then Inl SubqueryCountNeedsConstantInteger
      else
        (case get_type (expr_value r) of
           Inl e \<Rightarrow> Inl e
         | Inr t \<Rightarrow>
             if t \<noteq> type_Int then Inl SubqueryCountNeedsConstantInteger
             else
               (case expr_value r of
                  MInt v \<Rightarrow>
                    (case column_reference_from_key_path b m_query objectSchema
                            (key_path subqueryExpression) True of
                       Inl e \<Rightarrow> Inl e
                     | Inr collectionColumn \<Rightarrow>
                         (case schema_named (m_schema b)
                                 (objectClassName (m_property collectionColumn)) of
                            Inl e \<Rightarrow> Inl e
                          | Inr collectionMemberObjectSchema \<Rightarrow>
                              (case where_for (m_group b) collectionMemberObjectSchema of
                                 Inl e \<Rightarrow> Inl e
                               | Inr subquery \<Rightarrow>
                                   Inr (v, collectionColumn, collectionMemberObjectSchema,
                                        subquery))))
                | _ \<Rightarrow> Inl Unreachable)))"

text \<open>
  \<open>apply_predicate\<close> and the functions it calls that call it back. The two loops over the
  subpredicates are \<open>apply_subpredicates_and\<close> and \<open>apply_subpredicates_or\<close>. In the
  comparison case the function branch is taken only when the predicate was not rewritten,
  so it passes the operands of the predicate as it came.
\<close>

function apply_predicate ::
    "QueryBuilder \<Rightarrow> Predicate \<Rightarrow> RLMObjectSchema \<Rightarrow> Query \<Rightarrow> error + Query"
  and apply_subpredicates_and ::
    "QueryBuilder \<Rightarrow> Predicate list \<Rightarrow> RLMObjectSchema \<Rightarrow> Query \<Rightarrow> error + Query"
  and apply_subpredicates_or ::
    "QueryBuilder \<Rightarrow> Predicate list \<Rightarrow> bool \<Rightarrow> RLMObjectSchema \<Rightarrow> Query \<Rightarrow> error + Query"
  and apply_function_expression ::
    "QueryBuilder \<Rightarrow> RLMObjectSchema \<Rightarrow> PredicateExpression \<Rightarrow> OperatorType
       \<Rightarrow> PredicateExpression \<Rightarrow> Query \<Rightarrow> error + Query"
  and apply_function_subquery_expression ::
    "QueryBuilder \<Rightarrow> RLMObjectSchema \<Rightarrow> PredicateExpression \<Rightarrow> OperatorType
       \<Rightarrow> PredicateExpression \<Rightarrow> Query \<Rightarrow> error + Query"
  and apply_subquery_count_expression ::
    "QueryBuilder \<Rightarrow> RLMObjectSchema \<Rightarrow> PredicateExpression \<Rightarrow> OperatorType
       \<Rightarrow> PredicateExpression \<Rightarrow> Query \<Rightarrow> error + Query"
where
  "apply_predicate b (Compound c subpredicates) objectSchema m_query =
     (case c of
        And \<Rightarrow>
          (if subpredicates = [] then Inr (and_query TrueExpression m_query)
           else
             (case apply_subpredicates_and b subpredicates objectSchema (group m_query) of
                Inl e \<Rightarrow> Inl e
              | Inr q \<Rightarrow> Inr (end_group q)))
      | Or \<Rightarrow>
          (if subpredicates = [] then Inr (and_query FalseExpression m_query)
           else
             (case apply_subpredicates_or b subpredicates True objectSchema (group m_query) of
                Inl e \<Rightarrow> Inl e
              | Inr q \<Rightarrow> Inr (end_group q)))
      | Not_compound \<Rightarrow>
          (case subpredicates of
             [] \<Rightarrow> Inl NullDereference
           | sub # rest \<Rightarrow> apply_predicate b sub objectSchema (Not_query m_query)))"
| "apply_predicate b (Comparison l r modifier op opts) objectSchema m_query =
     (case classify_comparison l r modifier op opts of
        Inl e \<Rightarrow> Inl e
      | Inr (pred, l', r', exp1Type, exp2Type) \<Rightarrow>
          if exp1Type = KeyPath \<and> exp2Type = KeyPath
          then apply_column_expression b objectSchema (key_path l') (key_path r') pred m_query
          else if exp1Type = KeyPath \<and> exp2Type = ConstantValue
          then apply_value_expression b objectSchema (key_path l') (expr_value r') pred m_query
          else if exp1Type = ConstantValue \<and> exp2Type = KeyPath
          then apply_value_expression b objectSchema (key_path r') (expr_value l') pred m_query
          else if exp1Type = Function
          then apply_function_expression b objectSchema l op r m_query
          else if exp1Type = Subquery then Inl SubqueryWithoutCount
          else Inl MustCompareKeyPath)"
| "apply_predicate b (OfKind k) objectSchema m_query =
     (case k of
        Kind_True \<Rightarrow> Inr (and_query TrueExpression m_query)
      | Kind_False \<Rightarrow> Inr (and_query FalseExpression m_query)
      | Kind_Base \<Rightarrow> Inl UnsupportedPredicateKind
      | _ \<Rightarrow> Inl UninitializedRead)"
| "apply_subpredicates_and b [] objectSchema m_query = Inr m_query"
| "apply_subpredicates_and b (sub # subs) objectSchema m_query =
     (case apply_predicate b sub objectSchema m_query of
        Inl e \<Rightarrow> Inl e
      | Inr q \<Rightarrow> apply_subpredicates_and b subs objectSchema q)"
| "apply_subpredicates_or b [] first objectSchema m_query = Inr m_query"
| "apply_subpredicates_or b (sub # subs) first objectSchema m_query =
     (case apply_predicate b sub objectSchema
             (if \<not> first then Or_query m_query else m_query) of
        Inl e \<Rightarrow> Inl e
      | Inr q \<Rightarrow> apply_subpredicates_or b subs False objectSchema q)"
| "apply_function_expression b objectSchema functionExpression operatorType r m_query =
     (case functionExpression of
        FunctionExpression t (Some x) f a \<Rightarrow>
          (if expr_type x \<noteq> Subquery then Inl (FunctionNotSupported f)
           else apply_function_subquery_expression b objectSchema functionExpression
                  operatorType r m_query)
      | _ \<Rightarrow> Inl NullDereference)"
| "apply_function_subquery_expression b objectSchema functionExpression operatorType r m_query =
     (if function_name functionExpression \<noteq> ''valueForKeyPath:''
      then Inl (FunctionNotSupportedOnSubquery (function_name functionExpression))
      else
        (case argument functionExpression of
           None \<Rightarrow> Inl NullDereference
         | Some keyPathExpression \<Rightarrow>
             if key_path keyPathExpression \<noteq> ''@count'' then Inl SubqueryNeedsCount
             else
               (case functionExpression of
                  FunctionExpression t (Some x) f a \<Rightarrow>
                    apply_subquery_count_expression b objectSchema x operatorType r m_query
                | _ \<Rightarrow> Inl NullDereference)))"
| "apply_subquery_count_expression b objectSchema subqueryExpression operatorType r m_query =
     (case subquery_count_scope b m_query objectSchema subqueryExpression r of
        Inl e \<Rightarrow> Inl e
      | Inr (v, collectionColumn, collectionMemberObjectSchema, subquery) \<Rightarrow>
          (case subqueryExpression of
             SubqueryExpression t k p \<Rightarrow>
               (case apply_predicate b p collectionMemberObjectSchema subquery of
                  Inl e \<Rightarrow> Inl e
                | Inr subquery' \<Rightarrow>
                    if validate b subquery' \<noteq> [] then Inl (ValidateMessage (validate b subquery'))
                    else
                      (case resolve b R_Link collectionColumn (Some subquery') of
                         Inl e \<Rightarrow> Inl e
                       | Inr lc \<Rightarrow>
                           add_numeric_constraint PropertyType_Int operatorType
                             (LinkCount lc) (IntValue v) m_query))
           | _ \<Rightarrow> Inl NullDereference))"
  by pat_completeness auto
termination
  by (relation "measure (\<lambda>x. case x of
          Inl (Inl (b, p, os, q)) \<Rightarrow> 2 * size p
        | Inl (Inr (Inl (b, ps, os, q))) \<Rightarrow> 2 * size_list size ps
        | Inl (Inr (Inr (b, ps, f, os, q))) \<Rightarrow> 2 * size_list size ps
        | Inr (Inl (b, os, fe, op, r, q)) \<Rightarrow> 2 * size fe + 1
        | Inr (Inr (Inl (b, os, fe, op, r, q))) \<Rightarrow> 2 * size fe
        | Inr (Inr (Inr (b, os, se, op, r, q))) \<Rightarrow> 2 * size se)")
     simp_all

declare apply_predicate.simps [simp del]
declare apply_function_expression.simps [simp del]
declare apply_function_subquery_expression.simps [simp del]
declare apply_subquery_count_expression.simps [simp del]

text \<open>
  \<open>RLMPredicateToQuery\<close>: a fresh query on the table of the object schema, the predicate
  applied to it, and the query validated.
\<close>

definition RLMPredicateToQuery ::
    "QueryBuilder \<Rightarrow> Predicate \<Rightarrow> RLMObjectSchema \<Rightarrow> error + Query" where
  "RLMPredicateToQuery b pred objectSchema =
     (case where_for (m_group b) objectSchema of
        Inl e \<Rightarrow> Inl e
      | Inr query \<Rightarrow>
          (case apply_predicate b pred objectSchema query of
             Inl e \<Rightarrow> Inl e
           | Inr q \<Rightarrow>
               if validate b q \<noteq> [] then Inl (ValidateMessage (validate b q)) else Inr q))"

section \<open>What a query matches\<close>

text \<open>
  Modelled from the spec: the query class of the storage engine is not in the sources.
  The spec describes its calls as opening and closing a group, joining siblings with OR,
  negating what follows and adding a term to the terms of the current group, which are
  AND-ed. \<open>row\<close> says which conditions the row at hand satisfies; the two constant
  expressions do not depend on it. A group or an alternative without a term, an \<open>Or\<close> or a
  \<open>Not\<close> with nothing to apply to, and a group left open have no meaning (the builder's own
  comment: queries can't be empty).
\<close>

datatype Frame = GroupFrame "bool option" "bool option" | NotFrame

fun holds :: "(Expression \<Rightarrow> bool) \<Rightarrow> Expression \<Rightarrow> bool" where
  "holds row TrueExpression = True"
| "holds row FalseExpression = False"
| "holds row e = row e"

fun either :: "bool option \<Rightarrow> bool \<Rightarrow> bool" where
  "either None c = c"
| "either (Some a) c = (a \<or> c)"

fun add_node :: "bool \<Rightarrow> Frame list \<Rightarrow> Frame list option" where
  "add_node v [] = None"
| "add_node v (NotFrame # fs) = add_node (\<not> v) fs"
| "add_node v (GroupFrame alts None # fs) = Some (GroupFrame alts (Some v) # fs)"
| "add_node v (GroupFrame alts (Some c) # fs) = Some (GroupFrame alts (Some (c \<and> v)) # fs)"

fun query_step :: "(Expression \<Rightarrow> bool) \<Rightarrow> QueryOp \<Rightarrow> Frame list \<Rightarrow> Frame list option" where
  "query_step row Op_group fs = Some (GroupFrame None None # fs)"
| "query_step row Op_Not fs = Some (NotFrame # fs)"
| "query_step row Op_Or (GroupFrame alts (Some c) # fs) =
     Some (GroupFrame (Some (either alts c)) None # fs)"
| "query_step row Op_Or fs = None"
| "query_step row Op_end_group (GroupFrame alts (Some c) # f # fs) =
     add_node (either alts c) (f # fs)"
| "query_step row Op_end_group fs = None"
| "query_step row (Op_and_query e) fs = add_node (holds row e) fs"

fun query_run :: "(Expression \<Rightarrow> bool) \<Rightarrow> QueryOp list \<Rightarrow> Frame list \<Rightarrow> Frame list option" where
  "query_run row [] fs = Some fs"
| "query_run row (x # xs) fs =
     (case query_step row x fs of
        None \<Rightarrow> None
      | Some fs' \<Rightarrow> query_run row xs fs')"

definition matches :: "(Expression \<Rightarrow> bool) \<Rightarrow> Query \<Rightarrow> bool option" where
  "matches row q =
     (case query_run row (query_ops q) [GroupFrame None None] of
        Some [GroupFrame alts (Some c)] \<Rightarrow> Some (either alts c)
      | _ \<Rightarrow> None)"

section \<open>A group that has the tables of a schema\<close>

text \<open>
  The builder is made for a group whose tables were created from the schema: every object
  schema has its table, a link property has a column whose target is the table of the
  class it names, and a linking-objects property names a class of the schema that has
  its table.
\<close>

definition has_table :: "QueryBuilder \<Rightarrow> RLMObjectSchema \<Rightarrow> bool" where
  "has_table b os = (get_table (m_group b) (class_table_name (objectName os)) \<noteq> None)"

definition link_conforms :: "QueryBuilder \<Rightarrow> Table \<Rightarrow> RLMProperty \<Rightarrow> bool" where
  "link_conforms b t p =
     (if type p = PropertyType_Object then
        (case schema_named (m_schema b) (objectClassName p) of
           Inl e \<Rightarrow> False
         | Inr os' \<Rightarrow>
             has_table b os'
             \<and> (case get_column_key t (columnName p) of
                  None \<Rightarrow> False
                | Some ck \<Rightarrow> get_link_target t ck = Some (class_table_name (objectName os'))))
      else if type p = PropertyType_LinkingObjects then
        (case schema_named (m_schema b) (objectClassName p) of
           Inl e \<Rightarrow> False
         | Inr os' \<Rightarrow> has_table b os')
      else True)"

definition schema_conforms :: "QueryBuilder \<Rightarrow> RLMObjectSchema \<Rightarrow> bool" where
  "schema_conforms b os =
     (case get_table (m_group b) (class_table_name (objectName os)) of
        None \<Rightarrow> False
      | Some t \<Rightarrow> list_all (link_conforms b t) (properties os))"

definition group_conforms :: "QueryBuilder \<Rightarrow> bool" where
  "group_conforms b = list_all (schema_conforms b) (m_schema b)"

section \<open>An example: persons, their spouse and their friends\<close>

definition plain_property :: "string \<Rightarrow> PropertyType \<Rightarrow> RLMProperty" where
  "plain_property n t =
     \<lparr>name = n, type = t, array = False, objectClassName = None,
      linkOriginPropertyName = None, columnName = n\<rparr>"

definition link_property :: "string \<Rightarrow> bool \<Rightarrow> string \<Rightarrow> RLMProperty" where
  "link_property n many target =
     \<lparr>name = n, type = PropertyType_Object, array = many, objectClassName = Some target,
      linkOriginPropertyName = None, columnName = n\<rparr>"

definition Person :: RLMObjectSchema where
  "Person =
     \<lparr>className = ''Person'', objectName = ''Person'',
      properties =
        [plain_property ''name'' PropertyType_String,
         plain_property ''age'' PropertyType_Int,
         plain_property ''height'' PropertyType_Double,
         plain_property ''adult'' PropertyType_Bool,
         link_property ''spouse'' False ''Person'',
         link_property ''friends'' True ''Person'',
         plain_property ''email'' PropertyType_String]\<rparr>"

definition person_column :: "string \<Rightarrow> ColKey option" where
  "person_column n =
     (if n = ''name'' then
        Some \<lparr>col_index = 0, col_type = col_type_String, is_nullable = True, is_list = False\<rparr>
      else if n = ''age'' then
        Some \<lparr>col_index = 1, col_type = col_type_Int, is_nullable = False, is_list = False\<rparr>
      else if n = ''height'' then
        Some \<lparr>col_index = 2, col_type = col_type_Double, is_nullable = False, is_list = False\<rparr>
      else if n = ''adult'' then
        Some \<lparr>col_index = 3, col_type = col_type_Bool, is_nullable = False, is_list = False\<rparr>
      else if n = ''spouse'' then
        Some \<lparr>col_index = 4, col_type = col_type_Link, is_nullable = True, is_list = False\<rparr>
      else if n = ''friends'' then
        Some \<lparr>col_index = 5, col_type = col_type_LinkList, is_nullable = False, is_list = True\<rparr>
      else if n = ''email'' then
        Some \<lparr>col_index = 6, col_type = col_type_String, is_nullable = False, is_list = False\<rparr>
      else None)"

text \<open>
  Three persons, with the keys 0, 1 and 2. The name is optional and the e-mail address
  required: the column of the one is nullable, that of the other is not.
\<close>

definition person_table :: Table where
  "person_table =
     \<lparr>get_column_key = person_column,
      get_link_target =
        (\<lambda>ck. if col_index ck = 4 \<or> col_index ck = 5 then Some ''class_Person'' else None),
      is_valid = (\<lambda>k. k = 0 \<or> k = 1 \<or> k = 2)\<rparr>"

text \<open>
  The constants of the example are integers, strings, links and null, compared with
  columns of their own type: no conversion is applied to them, and the conversions of the
  example's builder are placeholders.
\<close>

definition no_conversions :: Conversions where
  "no_conversions =
     \<lparr>int_of_float = (\<lambda>f. None), int_of_double = (\<lambda>d. None), float_of_int = (\<lambda>i. 0),
      float_of_double = (\<lambda>d. None), double_of_int = (\<lambda>i. 0), double_of_float = (\<lambda>f. 0),
      decimal_of_int = (\<lambda>i. 0), decimal_of_float = (\<lambda>f. 0), decimal_of_double = (\<lambda>d. 0),
      decimal_of_string = (\<lambda>s. 0), object_id_of_string = (\<lambda>s. 0)\<rparr>"

definition person_builder :: QueryBuilder where
  "person_builder =
     \<lparr>m_group = \<lparr>get_table = (\<lambda>n. if n = ''class_Person'' then Some person_table else None)\<rparr>,
      m_schema = [Person],
      is_valid_str = (\<lambda>s. False),
      validate = (\<lambda>q. []),
      conversions = no_conversions\<rparr>"

definition person_query :: Query where
  "person_query = where ''class_Person''"

definition key_path_expr :: "string \<Rightarrow> PredicateExpression" where
  "key_path_expr k = KeyPathExpression KeyPath k"

definition constant_expr :: "QueryMixed \<Rightarrow> PredicateExpression" where
  "constant_expr v = ValueExpression ConstantValue v"


definition name_column :: ColumnReference where
  "name_column =
     \<lparr>m_links = [], m_property = plain_property ''name'' PropertyType_String,
      m_table = ''class_Person'', m_col = person_column ''name''\<rparr>"

definition email_column :: ColumnReference where
  "email_column =
     \<lparr>m_links = [], m_property = plain_property ''email'' PropertyType_String,
      m_table = ''class_Person'', m_col = person_column ''email''\<rparr>"

definition spouse_column :: ColumnReference where
  "spouse_column =
     \<lparr>m_links = [], m_property = link_property ''spouse'' False ''Person'',
      m_table = ''class_Person'', m_col = person_column ''spouse''\<rparr>"

definition friends_column :: ColumnReference where
  "friends_column =
     \<lparr>m_links = [], m_property = link_property ''friends'' True ''Person'',
      m_table = ''class_Person'', m_col = person_column ''friends''\<rparr>"

definition age_column :: ColumnReference where
  "age_column =
     \<lparr>m_links = [], m_property = plain_property ''age'' PropertyType_Int,
      m_table = ''class_Person'', m_col = person_column ''age''\<rparr>"

definition height_column :: ColumnReference where
  "height_column =
     \<lparr>m_links = [], m_property = plain_property ''height'' PropertyType_Double,
      m_table = ''class_Person'', m_col = person_column ''height''\<rparr>"

text \<open>The column reference of the key path \<open>friends.age\<close>, with the link it crosses.\<close>

definition friends_age_column :: ColumnReference where
  "friends_age_column =
     \<lparr>m_links = [link_property ''friends'' True ''Person''],
      m_property = plain_property ''age'' PropertyType_Int,
      m_table = ''class_Person'', m_col = person_column ''age''\<rparr>"

text \<open>
  The subquery \<open>SUBQUERY(friends, $f, $f.age > 21).@count\<close>, as \<open>convertExpression\<close>
  makes it.
\<close>

definition friends_of_age :: PredicateExpression where
  "friends_of_age =
     FunctionExpression Function
       (Some (SubqueryExpression Subquery ''friends''
                (Comparison (key_path_expr ''age'') (constant_expr (MInt 21)) Direct
                   GreaterThan None_options)))
       ''valueForKeyPath:'' (Some (key_path_expr ''@count''))"

text \<open>The key paths \<open>friends.name\<close> and \<open>spouse.name\<close>, resolved.\<close>

definition friends_name :: KeyPath_struct where
  "friends_name =
     \<lparr>links = [link_property ''friends'' True ''Person''],
      property = plain_property ''name'' PropertyType_String,
      containsToManyRelationship = True\<rparr>"

definition spouse_name :: KeyPath_struct where
  "spouse_name =
     \<lparr>links = [link_property ''spouse'' False ''Person''],
      property = plain_property ''name'' PropertyType_String,
      containsToManyRelationship = False\<rparr>"

section \<open>Properties\<close>

subsection \<open>Auxiliary facts\<close>

lemma query_table_add_op [simp]: "query_table (add_op x q) = query_table q"
  by (cases q) simp

lemma query_ops_add_op [simp]: "query_ops (add_op x q) = query_ops q @ [x]"
  by (cases q) simp

lemma resolve_plain:
  "column_type c \<noteq> PropertyType_LinkingObjects \<Longrightarrow> resolve b T c sub = Inr (Columns T c sub)"
  by (simp add: resolve_def)

lemma matches_false: "matches row (and_query FalseExpression (where t)) = Some False"
  by (simp add: matches_def and_query_def where_def)

lemmas example_defs =
  person_builder_def Person_def person_table_def person_query_def plain_property_def
  link_property_def key_path_expr_def constant_expr_def class_table_name_def where_def

lemmas resolve_defs =
  column_reference_from_key_path_def key_path_from_string_def key_path_loop.simps
  property_named_def schema_named_def ColumnReference_new_def walk_link_chain_def
  walk_link_def with_link_origin_def get_table_for_def Let_def

lemma age_resolves:
  "column_reference_from_key_path person_builder person_query Person ''age'' False
     = Inr age_column"
  by (simp add: example_defs resolve_defs age_column_def)

lemma height_resolves:
  "column_reference_from_key_path person_builder person_query Person ''height'' False
     = Inr height_column"
  by (simp add: example_defs resolve_defs height_column_def)

lemmas constraint_defs =
  add_constraint_def do_add_constraint_def with_values_of_type_def value_of_type_def
  resolve_def convert_def add_numeric_constraint_def add_bool_constraint_def column_type_def
  is_null_def

text \<open>The calls of the builder leave the table of the query as it is.\<close>

lemma query_table_calls [simp]:
  "query_table (group q) = query_table q"
  "query_table (end_group q) = query_table q"
  "query_table (Or_query q) = query_table q"
  "query_table (Not_query q) = query_table q"
  "query_table (and_query e q) = query_table q"
  by (simp_all add: group_def end_group_def Or_query_def Not_query_def and_query_def)

lemma add_numeric_constraint_table:
  "add_numeric_constraint t op l r q = Inr q' \<Longrightarrow> query_table q' = query_table q"
  by (auto simp: add_numeric_constraint_def split: OperatorType.splits)

lemma add_bool_constraint_table:
  "add_bool_constraint t op l r q = Inr q' \<Longrightarrow> query_table q' = query_table q"
  by (auto simp: add_bool_constraint_def split: OperatorType.splits)

lemma add_substring_constraint_table [simp]:
  "query_table (add_substring_constraint v e q) = query_table q"
  by (cases v)
     (simp_all add: add_substring_constraint_null_def add_substring_constraint_value_def
        add_substring_constraint_column_def)

lemma add_string_constraint_table:
  "add_string_constraint op opts column v q = Inr q' \<Longrightarrow> query_table q' = query_table q"
  by (auto simp: add_string_constraint_def Let_def split: OperatorType.splits if_splits)

lemma add_string_constraint_value_left_table:
  "add_string_constraint_value_left op opts v column q = Inr q' \<Longrightarrow>
   query_table q' = query_table q"
  by (auto simp: add_string_constraint_value_left_def dest: add_string_constraint_table
        split: OperatorType.splits)

lemma add_binary_constraint_data_table:
  "add_binary_constraint_data op column v q = Inr q' \<Longrightarrow> query_table q' = query_table q"
  by (auto simp: add_binary_constraint_data_def Let_def add_substring_constraint_value_def
        split: OperatorType.splits if_splits)

lemma add_binary_constraint_table:
  "add_binary_constraint op l r q = Inr q' \<Longrightarrow> query_table q' = query_table q"
  by (auto simp: add_binary_constraint_def add_binary_constraint_mixed_def
        dest: add_binary_constraint_data_table
        split: Operand.splits QueryMixed.splits if_splits)

lemma add_link_constraint_value_table:
  "add_link_constraint_value b op column v q = Inr q' \<Longrightarrow> query_table q' = query_table q"
  by (auto simp: add_link_constraint_value_def dest: add_bool_constraint_table
        split: QueryMixed.splits option.splits if_splits sum.splits)

lemma add_link_constraint_table:
  "add_link_constraint b op l r q = Inr q' \<Longrightarrow> query_table q' = query_table q"
  by (auto simp: add_link_constraint_def add_link_constraint_null_def
        dest: add_link_constraint_value_table add_bool_constraint_table
        split: Operand.splits sum.splits)

lemma with_values_of_type_table:
  assumes "with_values_of_type b T l r k = Inr q'"
    and "\<And>x y. k x y = Inr q' \<Longrightarrow> query_table q' = query_table q"
  shows "query_table q' = query_table q"
  using assms by (auto simp: with_values_of_type_def split: sum.splits)

lemma do_add_constraint_table:
  assumes "do_add_constraint b t op opts l r q = Inr q'"
  shows "query_table q' = query_table q"
proof -
  from assms have
    dispatch: "(case t of
           PropertyType_Bool \<Rightarrow>
             with_values_of_type b R_bool l r (\<lambda>x y. add_bool_constraint t op x y q)
         | PropertyType_ObjectId \<Rightarrow>
             with_values_of_type b R_ObjectId l r (\<lambda>x y. add_bool_constraint t op x y q)
         | PropertyType_Date \<Rightarrow>
             with_values_of_type b R_Timestamp l r (\<lambda>x y. add_numeric_constraint t op x y q)
         | PropertyType_Double \<Rightarrow>
             with_values_of_type b R_Double l r (\<lambda>x y. add_numeric_constraint t op x y q)
         | PropertyType_Float \<Rightarrow>
             with_values_of_type b R_Float l r (\<lambda>x y. add_numeric_constraint t op x y q)
         | PropertyType_Int \<Rightarrow>
             with_values_of_type b R_Int l r (\<lambda>x y. add_numeric_constraint t op x y q)
         | PropertyType_Decimal \<Rightarrow>
             with_values_of_type b R_Decimal128 l r (\<lambda>x y. add_numeric_constraint t op x y q)
         | PropertyType_String \<Rightarrow>
             (case string_value_of_type b l of
                Inl e \<Rightarrow> Inl e
              | Inr x \<Rightarrow>
                  (case string_value_of_type b r of
                     Inl e \<Rightarrow> Inl e
                   | Inr y \<Rightarrow>
                       (case (x, y) of
                          (String_column column, v) \<Rightarrow>
                            add_string_constraint op opts column v q
                        | (String_data v, String_column column) \<Rightarrow>
                            add_string_constraint_value_left op opts v column q
                        | _ \<Rightarrow> Inl Unreachable)))
         | PropertyType_Data \<Rightarrow> add_binary_constraint op l r q
         | PropertyType_Object \<Rightarrow> add_link_constraint b op l r q
         | PropertyType_LinkingObjects \<Rightarrow> add_link_constraint b op l r q
         | _ \<Rightarrow> Inl (ObjectTypeNotSupported t)) = Inr q'"
    by (auto simp: do_add_constraint_def split: Operand.splits prod.splits)
  show ?thesis
  proof (cases t)
    case PropertyType_String
    with dispatch show ?thesis
      by (auto dest: add_string_constraint_table add_string_constraint_value_left_table
            split: sum.splits StringArg.splits)
  qed (use dispatch in \<open>auto dest: add_binary_constraint_table add_link_constraint_table
         elim: with_values_of_type_table add_bool_constraint_table
           add_numeric_constraint_table\<close>)
qed

lemma add_constraint_table:
  "add_constraint b t op opts l r q = Inr q' \<Longrightarrow> query_table q' = query_table q"
  by (auto simp: add_constraint_def dest: do_add_constraint_table split: if_splits)

text \<open>
  A column reference depends on the query through its table only, and a comparison of a
  key path with a constant by an operator other than BETWEEN and IN validates the
  constant against the column, then adds the constraint.
\<close>

lemma column_reference_query_table:
  "query_table q' = query_table q \<Longrightarrow>
   column_reference_from_key_path b q' desc k a = column_reference_from_key_path b q desc k a"
  by (simp add: column_reference_from_key_path_def ColumnReference_new_def split: sum.splits)

lemma value_comparison_unfold:
  assumes "\<not> key_path_contains_collection_operator k"
    and "column_reference_from_key_path b q desc k (modifier = Any) = Inr c"
    and "modifier \<noteq> All" and "op \<noteq> Between" and "op \<noteq> In"
  shows "apply_predicate b (Comparison (key_path_expr k) (constant_expr x) modifier op opts)
           desc q
         = (case validate_property_value b c x ExpectedObjectOfType desc k of
              Inl e \<Rightarrow> Inl e
            | Inr u \<Rightarrow> add_constraint b (column_type c) op opts (OColumn c) (OMixed x) q)"
  using assms
  by (simp add: apply_predicate.simps(2) classify_comparison_def key_path_expr_def
        constant_expr_def)

lemmas validate_defs =
  validate_property_value_def is_valid_for_column_def validate_value.simps
  validate_value_switch_def person_column_def key_path_contains_collection_operator_def

lemma person_class_name: "className Person = ''Person''"
  by (simp add: Person_def)

lemma name_resolves:
  "column_reference_from_key_path person_builder person_query Person ''name'' False
     = Inr name_column"
  by (simp add: example_defs resolve_defs name_column_def)

lemma email_resolves:
  "column_reference_from_key_path person_builder person_query Person ''email'' False
     = Inr email_column"
  by (simp add: example_defs resolve_defs email_column_def)

subsection \<open>Substring operators\<close>

text \<open>
  Null as the right operand of a substring operator does not always compile to the
  constant-false expression: the e-mail address of a person is a required string, and
  \<open>email BEGINSWITH nil\<close> fails the validation of the value against the column.
\<close>

theorem null_prefix_of_required_string_fails:
  "column_reference_from_key_path person_builder person_query Person ''email'' False
     = Inr email_column
   \<and> column_type email_column = PropertyType_String
   \<and> apply_predicate person_builder
       (Comparison (key_path_expr ''email'') (constant_expr Null) Direct BeginsWith
          None_options) Person person_query
     = Inl (ExpectedObjectOfType (PropertyTypeName PropertyType_String) ''email'' ''Person''
              (Description_text ''<null>''))"
proof -
  have n: "\<not> key_path_contains_collection_operator ''email''"
    by (simp add: key_path_contains_collection_operator_def)
  have c: "column_reference_from_key_path person_builder person_query Person ''email''
             (Direct = Any) = Inr email_column"
    using email_resolves by simp
  have "apply_predicate person_builder
          (Comparison (key_path_expr ''email'') (constant_expr Null) Direct BeginsWith
             None_options) Person person_query
        = Inl (ExpectedObjectOfType (PropertyTypeName PropertyType_String) ''email''
                 ''Person'' (Description_text ''<null>''))"
    using person_class_name
    by (simp add: value_comparison_unfold [OF n c] validate_defs email_column_def
          plain_property_def is_null_def)
  then show ?thesis
    using email_resolves by (simp add: column_type_def email_column_def plain_property_def)
qed

text \<open>
  Claim C1, for the constants that pass validation. On a key path that resolves to a
  string column, \<open>beginsWith\<close>, \<open>endsWith\<close> and \<open>contains\<close> under diacritic-sensitive
  options, with the empty string on the right, or with null when the column is nullable,
  compile to the constant-false expression, whatever the column holds: a query of that
  constraint alone matches no row. With null on the right and a column that is neither
  nullable nor a list the comparison fails, with the error for a value of the wrong type.
\<close>

theorem substring_of_empty_or_null_is_false:
  assumes "\<not> key_path_contains_collection_operator k"
    and "modifier \<noteq> All"
    and "column_reference_from_key_path b q desc k (modifier = Any) = Inr c"
    and "column_type c = PropertyType_String"
    and "m_col c = Some ck" and "col_type ck = col_type_String"
    and "op = BeginsWith \<or> op = EndsWith \<or> op = Contains"
    and "\<not> is_set opts DiacriticInsensitive"
  shows "(v = MString [] \<or> (v = Null \<and> is_nullable ck) \<longrightarrow>
            apply_predicate b (Comparison (key_path_expr k) (constant_expr v) modifier op opts)
              desc q
            = Inr (and_query FalseExpression q))
       \<and> matches row (and_query FalseExpression (where t)) = Some False
       \<and> (\<not> is_nullable ck \<and> \<not> is_list ck \<longrightarrow>
            apply_predicate b
              (Comparison (key_path_expr k) (constant_expr Null) modifier op opts) desc q
            = Inl (ExpectedObjectOfType (PropertyTypeName PropertyType_String) k
                     (className desc) (Description_text ''<null>'')))"
proof -
  have o: "op \<noteq> Between" "op \<noteq> In"
    using assms(7) by auto
  note u = value_comparison_unfold [OF assms(1) assms(3) assms(2) o]
  have t: "type (m_property c) = PropertyType_String"
    using assms(4) by (simp add: column_type_def)
  have a: "add_constraint b PropertyType_String op opts (OColumn c) (OMixed v) q
             = Inr (and_query FalseExpression q)"
    if "v = MString [] \<or> v = Null" for v
    using that assms(4,7,8)
    by (auto simp: add_constraint_def do_add_constraint_def is_null_def
          string_value_of_type_def resolve_def add_string_constraint_def
          add_substring_constraint_null_def add_substring_constraint_value_def)
  have ok: "validate_property_value b c v ExpectedObjectOfType desc k = Inr ()"
    if "v = MString [] \<or> (v = Null \<and> is_nullable ck)" for v
    using that assms(5,6) t
    by (auto simp: validate_property_value_def is_valid_for_column_def validate_value.simps
          validate_value_switch_def is_null_def Let_def)
  have bad: "validate_property_value b c Null ExpectedObjectOfType desc k
             = Inl (ExpectedObjectOfType (PropertyTypeName PropertyType_String) k
                      (className desc) (Description_text ''<null>''))"
    if "\<not> is_nullable ck" "\<not> is_list ck"
    using that assms(5,6) t
    by (auto simp: validate_property_value_def is_valid_for_column_def validate_value.simps
          validate_value_switch_def is_null_def Let_def)
  show ?thesis
    using a ok bad assms(4) by (auto simp: u matches_false)
qed

theorem substring_of_empty_or_null_is_false_witness:
  "apply_predicate person_builder
     (Comparison (key_path_expr ''name'') (constant_expr (MString [])) Direct Contains
        CaseInsensitive) Person person_query
   = Inr (Query ''class_Person'' [Op_and_query FalseExpression])
   \<and> apply_predicate person_builder
     (Comparison (key_path_expr ''name'') (constant_expr Null) Direct BeginsWith
        None_options) Person person_query
   = Inr (Query ''class_Person'' [Op_and_query FalseExpression])
   \<and> apply_predicate person_builder
     (Comparison (key_path_expr ''email'') (constant_expr (MString [])) Direct EndsWith
        None_options) Person person_query
   = Inr (Query ''class_Person'' [Op_and_query FalseExpression])
   \<and> matches (\<lambda>e. True) (Query ''class_Person'' [Op_and_query FalseExpression]) = Some False"
proof -
  let ?name = "\<lparr>col_index = 0, col_type = col_type_String, is_nullable = True,
                 is_list = False\<rparr>"
  let ?email = "\<lparr>col_index = 6, col_type = col_type_String, is_nullable = False,
                  is_list = False\<rparr>"
  have n: "\<not> key_path_contains_collection_operator ''name''"
    "\<not> key_path_contains_collection_operator ''email''"
    by (simp_all add: key_path_contains_collection_operator_def)
  have d: "Direct \<noteq> All"
    by simp
  have r: "column_reference_from_key_path person_builder person_query Person ''name''
             (Direct = Any) = Inr name_column"
    "column_reference_from_key_path person_builder person_query Person ''email''
             (Direct = Any) = Inr email_column"
    using name_resolves email_resolves by simp_all
  have t: "column_type name_column = PropertyType_String"
    "column_type email_column = PropertyType_String"
    by (simp_all add: column_type_def name_column_def email_column_def plain_property_def)
  have c: "m_col name_column = Some ?name" "m_col email_column = Some ?email"
    by (simp_all add: name_column_def email_column_def person_column_def)
  have k: "col_type ?name = col_type_String" "col_type ?email = col_type_String"
    by simp_all
  have o: "Contains = BeginsWith \<or> Contains = EndsWith \<or> Contains = Contains"
    "BeginsWith = BeginsWith \<or> BeginsWith = EndsWith \<or> BeginsWith = Contains"
    "EndsWith = BeginsWith \<or> EndsWith = EndsWith \<or> EndsWith = Contains"
    by simp_all
  have s: "\<not> is_set CaseInsensitive DiacriticInsensitive"
    "\<not> is_set None_options DiacriticInsensitive"
    by (simp_all add: is_set_def CaseInsensitive_def DiacriticInsensitive_def
          None_options_def)
  have v: "MString [] = MString [] \<or> (MString [] = Null \<and> is_nullable ?name)"
    "Null = MString [] \<or> (Null = Null \<and> is_nullable ?name)"
    "MString [] = MString [] \<or> (MString [] = Null \<and> is_nullable ?email)"
    by simp_all
  have q: "and_query FalseExpression person_query
             = Query ''class_Person'' [Op_and_query FalseExpression]"
    "and_query FalseExpression (where ''class_Person'')
             = Query ''class_Person'' [Op_and_query FalseExpression]"
    by (simp_all add: and_query_def person_query_def where_def)
  show ?thesis
    using substring_of_empty_or_null_is_false
            [OF n(1) d r(1) t(1) c(1) k(1) o(1) s(1), where v = "MString []"
               and row = "\<lambda>e. True" and t = "''class_Person''"]
          substring_of_empty_or_null_is_false
            [OF n(1) d r(1) t(1) c(1) k(1) o(2) s(2), where v = Null
               and row = "\<lambda>e. True" and t = "''class_Person''"]
          substring_of_empty_or_null_is_false
            [OF n(2) d r(2) t(2) c(2) k(2) o(3) s(2), where v = "MString []"
               and row = "\<lambda>e. True" and t = "''class_Person''"]
          v q
    by simp
qed

subsection \<open>Compound predicates without children\<close>

text \<open>
  Claim C2. Whatever the schema, an AND without children compiles to what the true
  predicate compiles to, and an OR without children to what the false predicate compiles
  to: the same call on the query, hence the same query.
\<close>

theorem empty_compound_is_constant:
  "apply_predicate b (Compound And []) objectSchema q
     = apply_predicate b (OfKind Kind_True) objectSchema q
   \<and> apply_predicate b (Compound Or []) objectSchema q
     = apply_predicate b (OfKind Kind_False) objectSchema q
   \<and> apply_predicate b (Compound And []) objectSchema q = Inr (and_query TrueExpression q)
   \<and> apply_predicate b (Compound Or []) objectSchema q = Inr (and_query FalseExpression q)
   \<and> RLMPredicateToQuery b (Compound And []) objectSchema
     = RLMPredicateToQuery b (OfKind Kind_True) objectSchema
   \<and> RLMPredicateToQuery b (Compound Or []) objectSchema
     = RLMPredicateToQuery b (OfKind Kind_False) objectSchema"
  by (simp add: apply_predicate.simps RLMPredicateToQuery_def split: sum.splits)

subsection \<open>Links to objects that are not in the table\<close>

text \<open>
  Claim C6. A link column compared with \<open>==\<close> or \<open>!=\<close> against an object whose key is not
  valid in its table: on a to-many relationship the constraint is the comparison of the
  relationship with null, the check whether it is empty; on a to-one relationship \<open>==\<close> is
  the constant-false expression and \<open>!=\<close> the constant-true expression.
\<close>

theorem link_to_invalid_object:
  assumes "column_type c = PropertyType_Object \<or> column_type c = PropertyType_LinkingObjects"
    and "get_table (m_group b) (class_table_name object_type) = Some table"
    and "\<not> is_valid table obj_key"
    and "op = Equal \<or> op = NotEqual"
  shows "(array (m_property c) \<longrightarrow>
            add_constraint b (column_type c) op opts (OColumn c)
              (OMixed (MLink object_type obj_key)) q
            = add_link_constraint_null b op c q)
       \<and> (array (m_property c) \<longrightarrow> resolve b R_Link c None = Inr lc \<longrightarrow>
            add_constraint b (column_type c) op opts (OColumn c)
              (OMixed (MLink object_type obj_key)) q
            = Inr (and_query (Compare op lc NullValue) q))
       \<and> (\<not> array (m_property c) \<longrightarrow> op = Equal \<longrightarrow>
            add_constraint b (column_type c) op opts (OColumn c)
              (OMixed (MLink object_type obj_key)) q
            = Inr (and_query FalseExpression q))
       \<and> (\<not> array (m_property c) \<longrightarrow> op = NotEqual \<longrightarrow>
            add_constraint b (column_type c) op opts (OColumn c)
              (OMixed (MLink object_type obj_key)) q
            = Inr (and_query TrueExpression q))"
  using assms
  by (auto simp: add_constraint_def do_add_constraint_def is_null_def add_link_constraint_def
        add_link_constraint_value_def add_link_constraint_null_def add_bool_constraint_def)

theorem link_to_invalid_object_witness:
  "add_constraint person_builder (column_type spouse_column) Equal None_options
     (OColumn spouse_column) (OMixed (MLink ''Person'' 7)) person_query
   = Inr (and_query FalseExpression person_query)
   \<and> add_constraint person_builder (column_type spouse_column) NotEqual None_options
     (OColumn spouse_column) (OMixed (MLink ''Person'' 7)) person_query
   = Inr (and_query TrueExpression person_query)
   \<and> add_constraint person_builder (column_type friends_column) Equal None_options
     (OColumn friends_column) (OMixed (MLink ''Person'' 7)) person_query
   = Inr (and_query (Compare Equal (Columns R_Link friends_column None) NullValue)
            person_query)"
proof -
  have s: "column_type spouse_column = PropertyType_Object
           \<or> column_type spouse_column = PropertyType_LinkingObjects"
    and f: "column_type friends_column = PropertyType_Object
           \<or> column_type friends_column = PropertyType_LinkingObjects"
    by (simp_all add: spouse_column_def friends_column_def column_type_def link_property_def)
  have t: "get_table (m_group person_builder) (class_table_name ''Person'') = Some person_table"
    by (simp add: person_builder_def class_table_name_def)
  have k: "\<not> is_valid person_table 7"
    by (simp add: person_table_def)
  have one: "\<not> array (m_property spouse_column)" and many: "array (m_property friends_column)"
    by (simp_all add: spouse_column_def friends_column_def link_property_def)
  have r: "resolve person_builder R_Link friends_column None
           = Inr (Columns R_Link friends_column None)"
    by (simp add: resolve_def friends_column_def column_type_def link_property_def)
  have e: "Equal = Equal \<or> Equal = NotEqual" and n: "NotEqual = Equal \<or> NotEqual = NotEqual"
    by simp_all
  show ?thesis
    using link_to_invalid_object [OF s t k e, where opts = None_options and q = person_query]
      link_to_invalid_object [OF s t k n, where opts = None_options and q = person_query]
      link_to_invalid_object [OF f t k e, where opts = None_options and q = person_query
        and lc = "Columns R_Link friends_column None"]
      one many r
    by blast
qed

subsection \<open>Modifiers\<close>

text \<open>
  Claim C8. A comparison with the ALL modifier never compiles, and one with the ANY
  modifier fails unless its left operand is a key path expression and its right operand
  a constant value expression.
\<close>

theorem all_and_any_modifier:
  "apply_predicate b (Comparison l r All op opts) objectSchema q = Inl AllModifierNotSupported
   \<and> (\<not> (expr_type l = KeyPath \<and> expr_type r = ConstantValue) \<longrightarrow>
        apply_predicate b (Comparison l r Any op opts) objectSchema q
          = Inl AnyModifierNeedsKeyPathAndValue)"
  by (simp add: apply_predicate.simps classify_comparison_def)

theorem all_and_any_modifier_witness:
  "apply_predicate person_builder
     (Comparison (key_path_expr ''friends'') (key_path_expr ''spouse'') Any Equal None_options)
     Person person_query
   = Inl AnyModifierNeedsKeyPathAndValue"
  using all_and_any_modifier
          [of person_builder "key_path_expr ''friends''" "key_path_expr ''spouse''" Equal
              None_options Person person_query]
  by (simp add: key_path_expr_def)

subsection \<open>Boolean columns\<close>



subsection \<open>Comparing two columns\<close>

text \<open>
  Claim C9. \<open>apply_column_expression\<close> on two key paths without a collection operator,
  each resolved to a column reference, succeeds only when the two property types are the
  same, there being no conversion between numeric types, and then adds the constraint
  between the two columns; when the types differ it fails with the error that carries
  both property types. This holds for every operator, modifier and option of the
  comparison it is called for.
\<close>

theorem column_to_column_types_must_match:
  assumes "\<not> key_path_contains_collection_operator lk"
    and "\<not> key_path_contains_collection_operator rk"
    and "column_reference_from_key_path b q desc lk False = Inr lc"
    and "column_reference_from_key_path b q desc rk False = Inr rc"
  shows "(column_type lc \<noteq> column_type rc \<longrightarrow>
            apply_column_expression b desc lk rk (Comparison l r modifier op opts) q
              = Inl (ComparisonBetweenProperties (column_type lc) (column_type rc)))
       \<and> (column_type lc = column_type rc \<longrightarrow>
            apply_column_expression b desc lk rk (Comparison l r modifier op opts) q
              = add_constraint b (column_type lc) op opts (OColumn lc) (OColumn rc) q)
       \<and> (\<forall>q'. apply_column_expression b desc lk rk (Comparison l r modifier op opts) q
                = Inr q'
              \<longrightarrow> column_type lc = column_type rc)"
  using assms by auto

theorem column_to_column_types_must_match_witness:
  "apply_column_expression person_builder Person ''age'' ''height''
     (Comparison (key_path_expr ''age'') (key_path_expr ''height'') Any In CaseInsensitive)
     person_query
   = Inl (ComparisonBetweenProperties PropertyType_Int PropertyType_Double)
   \<and> apply_column_expression person_builder Person ''age'' ''age''
     (Comparison (key_path_expr ''age'') (key_path_expr ''age'') Direct LessThan None_options)
     person_query
   = Inr (and_query
            (Compare LessThan (Columns R_Int age_column None) (Columns R_Int age_column None))
            person_query)"
proof -
  have n: "\<not> key_path_contains_collection_operator ''age''"
    "\<not> key_path_contains_collection_operator ''height''"
    by (simp_all add: key_path_contains_collection_operator_def)
  have d: "column_type age_column = PropertyType_Int"
    "column_type height_column = PropertyType_Double"
    by (simp_all add: column_type_def age_column_def height_column_def plain_property_def)
  have c: "add_constraint person_builder PropertyType_Int LessThan None_options
             (OColumn age_column) (OColumn age_column) person_query
           = Inr (and_query
                    (Compare LessThan (Columns R_Int age_column None)
                       (Columns R_Int age_column None))
                    person_query)"
    using d by (simp add: constraint_defs)
  show ?thesis
    using column_to_column_types_must_match
            [OF n(1) n(2) age_resolves height_resolves,
             where l = "key_path_expr ''age''" and r = "key_path_expr ''height''"
               and modifier = Any and op = In and opts = CaseInsensitive]
          column_to_column_types_must_match
            [OF n(1) n(1) age_resolves age_resolves,
             where l = "key_path_expr ''age''" and r = "key_path_expr ''age''"
               and modifier = Direct and op = LessThan and opts = None_options]
          c d
    by simp
qed

text \<open>
  \<open>apply_predicate\<close> hands a comparison of two key paths to \<open>apply_column_expression\<close>
  when its modifier is \<open>Direct\<close> and its operator neither BETWEEN nor IN; the other
  comparisons of two key paths fail before, in the checks of the modifier and of the
  operands of BETWEEN and IN.
\<close>

lemma two_key_paths_reach_apply_column_expression:
  assumes "expr_type l = KeyPath" and "expr_type r = KeyPath"
    and "op \<noteq> Between" and "op \<noteq> In"
  shows "apply_predicate b (Comparison l r Direct op opts) desc q
           = apply_column_expression b desc (key_path l) (key_path r)
               (Comparison l r Direct op opts) q"
  using assms by (simp add: apply_predicate.simps classify_comparison_def)

subsection \<open>Subqueries\<close>

lemma classify_function:
  assumes "expr_type l = Function \<or> expr_type l = Subquery"
    and "classify_comparison l r modifier op opts = Inr x"
  shows "x = (Comparison l r modifier op opts, l, r, expr_type l, expr_type r)"
  using assms
  by (auto simp: classify_comparison_def Let_def split: if_splits)

lemma apply_subquery_count_expression_Inr:
  assumes "apply_subquery_count_expression b objectSchema x op r q = Inr q'"
  shows "expr_type r = ConstantValue \<and> (\<exists>i. expr_value r = MInt i)"
  using assms
  by (auto simp: apply_subquery_count_expression.simps subquery_count_scope_def
        split: if_splits sum.splits QueryMixed.splits)

lemma apply_function_subquery_expression_Inr:
  assumes "apply_function_subquery_expression b objectSchema fe op r q = Inr q'"
  shows "function_name fe = ''valueForKeyPath:''
       \<and> (\<exists>a. argument fe = Some a \<and> key_path a = ''@count'')
       \<and> expr_type r = ConstantValue \<and> (\<exists>i. expr_value r = MInt i)"
  using assms
  by (auto simp: apply_function_subquery_expression.simps
        dest: apply_subquery_count_expression_Inr
        split: if_splits option.splits PredicateExpression.splits)

lemma apply_function_expression_Inr:
  assumes "apply_function_expression b objectSchema fe op r q = Inr q'"
  shows "function_name fe = ''valueForKeyPath:''
       \<and> (\<exists>a. argument fe = Some a \<and> key_path a = ''@count'')
       \<and> (\<exists>x. operand fe = Some x \<and> expr_type x = Subquery)
       \<and> expr_type r = ConstantValue \<and> (\<exists>i. expr_value r = MInt i)"
  using assms
  by (auto simp: apply_function_expression.simps
        dest!: apply_function_subquery_expression_Inr
        split: if_splits option.splits PredicateExpression.splits)

text \<open>
  A comparison whose left operand is a subquery, or a function applied to one, compiles
  only when the function is \<open>valueForKeyPath:\<close> with the argument \<open>@count\<close> on a subquery,
  and the right operand is a constant whose value is an integer.
\<close>

lemma subquery_compiles_only_with_count_and_integer:
  assumes "apply_predicate b (Comparison l r modifier op opts) objectSchema q = Inr q'"
    and "expr_type l = Function \<or> expr_type l = Subquery"
  shows "expr_type l = Function
       \<and> function_name l = ''valueForKeyPath:''
       \<and> (\<exists>a. argument l = Some a \<and> key_path a = ''@count'')
       \<and> (\<exists>x. operand l = Some x \<and> expr_type x = Subquery)
       \<and> expr_type r = ConstantValue
       \<and> (\<exists>i. expr_value r = MInt i)"
proof (cases "classify_comparison l r modifier op opts")
  case (Inl e)
  with assms(1) show ?thesis
    by (simp add: apply_predicate.simps)
next
  case (Inr x)
  from classify_function [OF assms(2) Inr]
  have x: "x = (Comparison l r modifier op opts, l, r, expr_type l, expr_type r)" .
  from assms(2) show ?thesis
  proof
    assume f: "expr_type l = Function"
    with assms(1) Inr x
    have "apply_function_expression b objectSchema l op r q = Inr q'"
      by (simp add: apply_predicate.simps(2))
    from apply_function_expression_Inr [OF this] f show ?thesis
      by simp
  next
    assume "expr_type l = Subquery"
    with assms(1) Inr x show ?thesis
      by (simp add: apply_predicate.simps)
  qed
qed

text \<open>
  The count of a subquery, compared directly by an operator other than BETWEEN and IN:
  a right operand that is not a constant, or a constant that is neither null nor an
  integer, fails the precondition of \<open>apply_subquery_count_expression\<close>; a null constant
  fails the assertion of \<open>get_type\<close>, which the condition of that precondition calls.
\<close>

lemma subquery_count_right_operand:
  assumes "expr_type x = Subquery" and "key_path a = ''@count''"
    and "op \<noteq> Between" and "op \<noteq> In"
  shows "apply_predicate b
           (Comparison (FunctionExpression Function (Some x) ''valueForKeyPath:'' (Some a)) r
              Direct op opts) objectSchema q
         = (if expr_type r \<noteq> ConstantValue then Inl SubqueryCountNeedsConstantInteger
            else if expr_value r = Null then Inl AssertionFailed
            else if \<forall>i. expr_value r \<noteq> MInt i then Inl SubqueryCountNeedsConstantInteger
            else apply_subquery_count_expression b objectSchema x op r q)"
  using assms
  by (cases "expr_value r")
     (auto simp: apply_predicate.simps classify_comparison_def
        apply_function_expression.simps apply_function_subquery_expression.simps
        apply_subquery_count_expression.simps subquery_count_scope_def)

lemma friends_of_age_compiles:
  "apply_predicate person_builder
     (Comparison friends_of_age (constant_expr (MInt 0)) Direct GreaterThan None_options)
     Person person_query
   = Inr (and_query
            (Compare GreaterThan
               (LinkCount
                  (Columns R_Link friends_column
                     (Some (and_query
                              (Compare GreaterThan (Columns R_Int age_column None)
                                 (IntValue 21))
                              person_query))))
               (IntValue 0))
            person_query)"
  by (simp add: friends_of_age_def apply_predicate.simps apply_function_expression.simps
        apply_function_subquery_expression.simps apply_subquery_count_expression.simps
        classify_comparison_def
        subquery_count_scope_def where_for_def example_defs resolve_defs constraint_defs
        friends_column_def age_column_def and_query_def
        key_path_contains_collection_operator_def validate_property_value_def
        is_valid_for_column_def validate_value.simps validate_value_switch_def
        person_column_def)

lemma friends_of_age_is_count_of_subquery:
  "function_name friends_of_age = ''valueForKeyPath:''
   \<and> expr_type (constant_expr (MInt 0)) = ConstantValue"
proof -
  have f: "expr_type friends_of_age = Function \<or> expr_type friends_of_age = Subquery"
    by (simp add: friends_of_age_def)
  from subquery_compiles_only_with_count_and_integer [OF friends_of_age_compiles f]
  show ?thesis
    by simp
qed

text \<open>
  Claim C7. The count of a subquery compared with a constant that is not an integer is
  to fail compilation with the error of the builder for it, and does so for every
  constant but null: \<open>SUBQUERY(friends, $f, $f.age > 21).@count == nil\<close> on the persons
  does not fail with \<open>SubqueryCountNeedsConstantInteger\<close>, it fails the assertion of
  \<open>get_type\<close>, which ends the process.
\<close>

theorem subquery_count_of_null_fails_assertion:
  "apply_predicate person_builder
     (Comparison friends_of_age (constant_expr Null) Direct Equal None_options)
     Person person_query
   = Inl AssertionFailed"
  by (simp add: friends_of_age_def constant_expr_def apply_predicate.simps
        classify_comparison_def apply_function_expression.simps
        apply_function_subquery_expression.simps apply_subquery_count_expression.simps
        subquery_count_scope_def key_path_expr_def)

subsection \<open>Key paths over to-many properties\<close>

lemma key_path_loop_nil:
  "key_path_loop S os [] lnks pr flag =
     (case pr of None \<Rightarrow> Inl UninitializedRead
      | Some p \<Rightarrow> Inr \<lparr>links = lnks, property = p, containsToManyRelationship = flag\<rparr>)"
  by (subst key_path_loop.simps) simp

lemma key_path_loop_step:
  "start \<noteq> [] \<Longrightarrow>
   key_path_loop S os start lnks pr flag =
     (case property_named os (takeWhile (\<lambda>c. c \<noteq> CHR ''.'') start) of
        None \<Rightarrow> Inl (PropertyNotFound (takeWhile (\<lambda>c. c \<noteq> CHR ''.'') start) (className os))
      | Some p \<Rightarrow>
          if dropWhile (\<lambda>c. c \<noteq> CHR ''.'') start \<noteq> [] then
            (if type p = PropertyType_Object \<or> type p = PropertyType_LinkingObjects then
               (case objectClassName p of
                  None \<Rightarrow> Inl AssertionFailed
                | Some cn \<Rightarrow>
                    (case schema_named S (Some cn) of
                       Inl e \<Rightarrow> Inl e
                     | Inr os' \<Rightarrow>
                         key_path_loop S os' (tl (dropWhile (\<lambda>c. c \<noteq> CHR ''.'') start))
                           (lnks @ [p]) (Some p) (flag \<or> array p)))
             else Inl (PropertyNotALink (takeWhile (\<lambda>c. c \<noteq> CHR ''.'') start) (className os)))
          else Inr \<lparr>links = lnks, property = p,
                    containsToManyRelationship = (flag \<or> array p)\<rparr>)"
  by (subst key_path_loop.simps) (simp add: Let_def split: option.splits)

lemma key_path_loop_last:
  assumes "start \<noteq> []" and "dropWhile (\<lambda>c. c \<noteq> CHR ''.'') start = []"
    and "key_path_loop S os start lnks pr flag = Inr kp"
  shows "\<exists>p. kp = \<lparr>links = lnks, property = p,
                  containsToManyRelationship = (flag \<or> array p)\<rparr>"
  using assms(3) unfolding key_path_loop_step [OF assms(1)] assms(2)
  by (auto split: option.splits)

lemma key_path_loop_link:
  assumes "start \<noteq> []" and "dropWhile (\<lambda>c. c \<noteq> CHR ''.'') start \<noteq> []"
    and "key_path_loop S os start lnks pr flag = Inr kp"
  shows "\<exists>p cn os'.
           property_named os (takeWhile (\<lambda>c. c \<noteq> CHR ''.'') start) = Some p
         \<and> (type p = PropertyType_Object \<or> type p = PropertyType_LinkingObjects)
         \<and> objectClassName p = Some cn
         \<and> schema_named S (Some cn) = Inr os'
         \<and> key_path_loop S os' (tl (dropWhile (\<lambda>c. c \<noteq> CHR ''.'') start)) (lnks @ [p])
               (Some p) (flag \<or> array p) = Inr kp"
  using assms(3) assms(2) unfolding key_path_loop_step [OF assms(1)]
  by (auto split: option.splits if_splits sum.splits)

lemma key_path_loop_to_many:
  "key_path_loop S os start lnks pr flag = Inr kp \<Longrightarrow>
   (\<forall>p. pr = Some p \<longrightarrow> array p \<longrightarrow> flag) \<Longrightarrow>
   \<exists>new. links kp = lnks @ new
     \<and> containsToManyRelationship kp = (flag \<or> list_ex array new \<or> array (property kp))"
proof (induction S os start lnks pr flag rule: key_path_loop.induct)
  case (1 schema objectSchema start lnks pr flag)
  show ?case
  proof (cases "start = []")
    case True
    with "1.prems" show ?thesis
      by (auto simp: key_path_loop_nil split: option.splits)
  next
    case False
    let ?dot = "dropWhile (\<lambda>c. c \<noteq> CHR ''.'') start"
    show ?thesis
    proof (cases "?dot = []")
      case True
      from key_path_loop_last [OF False True "1.prems"(1)] show ?thesis
        by auto
    next
      case dot: False
      from key_path_loop_link [OF False dot "1.prems"(1)]
      obtain p cn os' where
        p: "property_named objectSchema (takeWhile (\<lambda>c. c \<noteq> CHR ''.'') start) = Some p"
        and l: "type p = PropertyType_Object \<or> type p = PropertyType_LinkingObjects"
        and cn: "objectClassName p = Some cn"
        and os': "schema_named schema (Some cn) = Inr os'"
        and rec: "key_path_loop schema os' (tl ?dot) (lnks @ [p]) (Some p) (flag \<or> array p) = Inr kp"
        by blast
      have "\<exists>new. links kp = (lnks @ [p]) @ new
              \<and> containsToManyRelationship kp
                  = ((flag \<or> array p) \<or> list_ex array new \<or> array (property kp))"
        by (rule "1.IH" [OF False refl refl p refl dot l cn os' rec]) simp
      then obtain new where "links kp = lnks @ (p # new)"
        and "containsToManyRelationship kp
               = (flag \<or> list_ex array (p # new) \<or> array (property kp))"
        by auto
      then show ?thesis by blast
    qed
  qed
qed

lemma key_path_from_string_to_many:
  assumes "key_path_from_string S os keyPath = Inr kp"
  shows "containsToManyRelationship kp = (\<exists>p \<in> set (links kp @ [property kp]). array p)"
  using key_path_loop_to_many [of S os keyPath "[]" None False kp] assms
  by (auto simp: key_path_from_string_def list_ex_iff)

lemma walk_links_append:
  "walk_links b t (xs @ [p]) =
     (case walk_links b t xs of Inl e \<Rightarrow> Inl e | Inr t' \<Rightarrow> walk_link b t' p)"
  by (induction xs arbitrary: t) (auto split: sum.splits)

lemma schema_named_in_set:
  "schema_named S n = Inr os \<Longrightarrow> os \<in> set S"
  by (auto simp: schema_named_def find_Some_iff split: option.splits)

lemma property_named_in_set:
  "property_named os n = Some p \<Longrightarrow> p \<in> set (properties os)"
  by (auto simp: property_named_def find_Some_iff)

lemma walk_link_conforms:
  assumes "group_conforms b" and "os \<in> set (m_schema b)"
    and "get_table (m_group b) (class_table_name (objectName os)) = Some t"
    and "property_named os n = Some p"
    and "type p = PropertyType_Object \<or> type p = PropertyType_LinkingObjects"
    and "schema_named (m_schema b) (objectClassName p) = Inr os'"
  shows "\<exists>t'. walk_link b t p = Inr t'
           \<and> get_table (m_group b) (class_table_name (objectName os')) = Some t'"
proof -
  from assms(1,2) have "schema_conforms b os"
    by (simp add: group_conforms_def list_all_iff)
  with assms(3) have "list_all (link_conforms b t) (properties os)"
    by (simp add: schema_conforms_def)
  with property_named_in_set [OF assms(4)] have "link_conforms b t p"
    by (simp add: list_all_iff)
  with assms(5,6) show ?thesis
    by (auto simp: link_conforms_def walk_link_def with_link_origin_def get_table_for_def
          has_table_def split: option.splits if_splits)
qed

lemma key_path_loop_walk:
  assumes "group_conforms b"
  shows "key_path_loop S os start lnks pr flag = Inr kp \<Longrightarrow> S = m_schema b \<Longrightarrow>
         os \<in> set (m_schema b) \<Longrightarrow>
         get_table (m_group b) (class_table_name (objectName os)) = Some t \<Longrightarrow>
         walk_links b t0 lnks = Inr t \<Longrightarrow>
         \<exists>t'. walk_links b t0 (links kp) = Inr t'"
proof (induction S os start lnks pr flag arbitrary: t rule: key_path_loop.induct)
  case (1 schema objectSchema start lnks pr flag)
  show ?case
  proof (cases "start = []")
    case True
    with "1.prems"(1) have "links kp = lnks"
      by (auto simp: key_path_loop_nil split: option.splits)
    with "1.prems"(5) show ?thesis
      by simp
  next
    case False
    let ?dot = "dropWhile (\<lambda>c. c \<noteq> CHR ''.'') start"
    show ?thesis
    proof (cases "?dot = []")
      case True
      from key_path_loop_last [OF False True "1.prems"(1)] have "links kp = lnks"
        by auto
      with "1.prems"(5) show ?thesis
        by simp
    next
      case dot: False
      from key_path_loop_link [OF False dot "1.prems"(1)]
      obtain p cn os' where
        p: "property_named objectSchema (takeWhile (\<lambda>c. c \<noteq> CHR ''.'') start) = Some p"
        and l: "type p = PropertyType_Object \<or> type p = PropertyType_LinkingObjects"
        and cn: "objectClassName p = Some cn"
        and os': "schema_named schema (Some cn) = Inr os'"
        and rec: "key_path_loop schema os' (tl ?dot) (lnks @ [p]) (Some p) (flag \<or> array p) = Inr kp"
        by blast
      from os' cn "1.prems"(2)
      have os'': "schema_named (m_schema b) (objectClassName p) = Inr os'"
        by simp
      from walk_link_conforms [OF assms "1.prems"(3) "1.prems"(4) p l os'']
      obtain t' where w: "walk_link b t p = Inr t'"
        and t': "get_table (m_group b) (class_table_name (objectName os')) = Some t'"
        by blast
      have in_S: "os' \<in> set (m_schema b)"
        using schema_named_in_set [OF os''] .
      have ws: "walk_links b t0 (lnks @ [p]) = Inr t'"
        using "1.prems"(5) w by (simp add: walk_links_append)
      show ?thesis
        by (rule "1.IH" [OF False refl refl p refl dot l cn os' rec "1.prems"(2) in_S t' ws])
    qed
  qed
qed

lemma column_reference_new_conforms:
  assumes "group_conforms b" and "objectSchema \<in> set (m_schema b)"
    and "query_table q = class_table_name (objectName objectSchema)"
    and "key_path_from_string (m_schema b) objectSchema keyPath = Inr kp"
  shows "\<exists>c. ColumnReference_new b q (property kp) (links kp) = Inr c
           \<and> m_property c = property kp \<and> m_links c = links kp"
proof -
  from assms(1,2) have "schema_conforms b objectSchema"
    by (simp add: group_conforms_def list_all_iff)
  then obtain t where t: "get_table (m_group b) (class_table_name (objectName objectSchema)) = Some t"
    by (auto simp: schema_conforms_def split: option.splits)
  have "walk_links b t [] = Inr t" by simp
  from key_path_loop_walk [OF assms(1) assms(4) [unfolded key_path_from_string_def] refl
      assms(2) t this]
  obtain t' where "walk_links b t (links kp) = Inr t'" by blast
  with t assms(3) show ?thesis
    by (simp add: ColumnReference_new_def walk_link_chain_def)
qed

text \<open>
  Claim C5. For a key path one of whose traversed properties, or whose last property, is
  to-many: resolving it outside an aggregate context fails with the error that a key path
  with an array property must use aggregate operations, and resolving it in an aggregate
  context passes that check and constructs the column reference, which succeeds on a
  group that has the tables of the schema. When none of its properties is to-many,
  resolving it in an aggregate context fails.
\<close>

theorem to_many_key_path_needs_aggregate:
  assumes "key_path_from_string (m_schema b) objectSchema keyPath = Inr kp"
  shows "((\<exists>p \<in> set (links kp @ [property kp]). array p) \<longrightarrow>
            column_reference_from_key_path b q objectSchema keyPath False
              = Inl CollectionRequiresAggregate
          \<and> column_reference_from_key_path b q objectSchema keyPath True
              = ColumnReference_new b q (property kp) (links kp)
          \<and> (group_conforms b \<and> objectSchema \<in> set (m_schema b)
               \<and> query_table q = class_table_name (objectName objectSchema) \<longrightarrow>
              (\<exists>c. column_reference_from_key_path b q objectSchema keyPath True = Inr c
                 \<and> m_property c = property kp \<and> m_links c = links kp)))
       \<and> (\<not> (\<exists>p \<in> set (links kp @ [property kp]). array p) \<longrightarrow>
            column_reference_from_key_path b q objectSchema keyPath True
              = Inl AggregateOnNonCollection)"
proof -
  note f = key_path_from_string_to_many [OF assms]
  show ?thesis
  proof (cases "containsToManyRelationship kp")
    case True
    then have "column_reference_from_key_path b q objectSchema keyPath True
                 = ColumnReference_new b q (property kp) (links kp)"
      and "column_reference_from_key_path b q objectSchema keyPath False
                 = Inl CollectionRequiresAggregate"
      using assms by (simp_all add: column_reference_from_key_path_def)
    with True f column_reference_new_conforms [of b objectSchema q keyPath kp] assms
    show ?thesis by auto
  next
    case False
    with assms f show ?thesis
      by (simp add: column_reference_from_key_path_def)
  qed
qed

lemma person_group_conforms: "group_conforms person_builder"
  by (simp add: group_conforms_def schema_conforms_def link_conforms_def has_table_def
        schema_named_def example_defs person_column_def)

theorem to_many_key_path_needs_aggregate_witness:
  "column_reference_from_key_path person_builder person_query Person ''friends.name'' False
     = Inl CollectionRequiresAggregate
   \<and> (\<exists>c. column_reference_from_key_path person_builder person_query Person
              ''friends.name'' True = Inr c
          \<and> m_property c = property friends_name \<and> m_links c = links friends_name)
   \<and> column_reference_from_key_path person_builder person_query Person ''spouse.name'' True
     = Inl AggregateOnNonCollection
   \<and> collection_operation_from_key_path person_builder person_query Person ''friends.@count''
     = Inr \<lparr>m_type = Count, m_link_column = friends_column, m_column = None\<rparr>"
proof -
  have f: "key_path_from_string (m_schema person_builder) Person ''friends.name''
             = Inr friends_name"
    by (simp add: friends_name_def example_defs resolve_defs)
  have s: "key_path_from_string (m_schema person_builder) Person ''spouse.name''
             = Inr spouse_name"
    by (simp add: spouse_name_def example_defs resolve_defs)
  have many: "\<exists>p \<in> set (links friends_name @ [property friends_name]). array p"
    by (simp add: friends_name_def link_property_def)
  have one: "\<not> (\<exists>p \<in> set (links spouse_name @ [property spouse_name]). array p)"
    by (simp add: spouse_name_def link_property_def plain_property_def)
  have g: "group_conforms person_builder \<and> Person \<in> set (m_schema person_builder)
           \<and> query_table person_query = class_table_name (objectName Person)"
    using person_group_conforms by (simp add: example_defs)
  have c: "collection_operation_from_key_path person_builder person_query Person
             ''friends.@count''
           = Inr \<lparr>m_type = Count, m_link_column = friends_column, m_column = None\<rparr>"
    by (simp add: collection_operation_from_key_path_def
          get_collection_operation_name_from_key_path_def CollectionOperation_named_def
          CollectionOperation_new_def type_for_name_def friends_column_def example_defs
          resolve_defs)
  show ?thesis
    using to_many_key_path_needs_aggregate [OF f, of person_query]
      to_many_key_path_needs_aggregate [OF s, of person_query] many one g c
    by blast
qed

subsection \<open>BETWEEN\<close>

text \<open>
  A key path resolved for a comparison with the \<open>Direct\<close> modifier crosses no to-many
  link.
\<close>

lemma no_to_many_links:
  assumes "column_reference_from_key_path b q desc k False = Inr c"
  shows "\<not> has_any_to_many_links c"
proof -
  from assms obtain kp where kp: "key_path_from_string (m_schema b) desc k = Inr kp"
    and f: "\<not> containsToManyRelationship kp"
    and c: "ColumnReference_new b q (property kp) (links kp) = Inr c"
    by (auto simp: column_reference_from_key_path_def split: sum.splits if_splits)
  from c have "m_links c = links kp"
    by (auto simp: ColumnReference_new_def split: sum.splits)
  with f key_path_from_string_to_many [OF kp] show ?thesis
    by (auto simp: has_any_to_many_links_def list_ex_iff)
qed

lemma between_unfold:
  assumes "\<not> key_path_contains_collection_operator k"
    and "modifier \<noteq> All"
    and "column_reference_from_key_path b q desc k (modifier = Any) = Inr c"
    and "\<not> has_any_to_many_links c"
    and "et = ConstantValue \<or> (et = Aggregate \<and> modifier = Direct)"
  shows "apply_predicate b
           (Comparison (key_path_expr k) (ValueExpression et v) modifier Between opts) desc q
         = (case get_type v of
              Inl e \<Rightarrow> Inl e
            | Inr t \<Rightarrow>
              if t \<noteq> type_LinkList then Inl BetweenRequiresTwoValues
              else
              (case get_array v of
                 [lo, hi] \<Rightarrow>
                   (case is_valid_for_column b lo c of
                      Inl e \<Rightarrow> Inl e
                    | Inr ok_lo \<Rightarrow>
                        if \<not> ok_lo then Inl (BetweenArrayObjectsType (type (m_property c)))
                        else
                          (case is_valid_for_column b hi c of
                             Inl e \<Rightarrow> Inl e
                           | Inr ok_hi \<Rightarrow>
                               if \<not> ok_hi
                               then Inl (BetweenArrayObjectsType (type (m_property c)))
                               else
                                 (case add_constraint b (column_type c) GreaterThanOrEqual
                                         None_options (OColumn c) (OMixed lo) (group q) of
                                    Inl e \<Rightarrow> Inl e
                                  | Inr q1 \<Rightarrow>
                                      (case add_constraint b (column_type c) LessThanOrEqual
                                              None_options (OColumn c) (OMixed hi) q1 of
                                         Inl e \<Rightarrow> Inl e
                                       | Inr q2 \<Rightarrow> Inr (end_group q2)))))
               | _ \<Rightarrow> Inl BetweenRequiresTwoValues))"
proof -
  have "apply_predicate b
          (Comparison (key_path_expr k) (ValueExpression et v) modifier Between opts) desc q
        = add_between_constraint b c v q"
    using assms(1,2,3,5)
    by (auto simp: apply_predicate.simps(2) classify_comparison_def key_path_expr_def)
  then show ?thesis
    using assms(4)
    by (simp add: add_between_constraint.simps [of b c v q])
qed

lemma numeric_valid_has_description:
  assumes "m_col c = Some ck"
    and "col_type ck \<in> {col_type_Int, col_type_Float, col_type_Double, col_type_Timestamp,
           col_type_Decimal}"
    and "is_valid_for_column b x c = Inr True"
  shows "\<exists>d. description x = Inr d"
proof (cases x)
  case (MBool y)
  with assms show ?thesis
    by (auto simp: is_valid_for_column_def validate_value.simps validate_value_switch_def
          is_null_def split: if_splits)
qed simp_all

lemma numeric_value_comparison:
  assumes "\<not> key_path_contains_collection_operator k"
    and "modifier \<noteq> All"
    and "column_reference_from_key_path b q desc k (modifier = Any) = Inr c"
    and "op \<noteq> Between" and "op \<noteq> In"
    and "column_type c \<in> {PropertyType_Int, PropertyType_Float, PropertyType_Double,
           PropertyType_Date, PropertyType_Decimal}"
    and "m_col c = Some ck"
    and "col_type ck \<in> {col_type_Int, col_type_Float, col_type_Double, col_type_Timestamp,
           col_type_Decimal}"
  shows "is_valid_for_column b x c = Inr True \<Longrightarrow>
           apply_predicate b (Comparison (key_path_expr k) (constant_expr x) modifier op opts)
             desc q
           = add_constraint b (column_type c) op opts (OColumn c) (OMixed x) q"
    and "is_valid_for_column b x c \<noteq> Inr True \<Longrightarrow>
           isl (apply_predicate b
                  (Comparison (key_path_expr k) (constant_expr x) modifier op opts) desc q)"
proof -
  note u = value_comparison_unfold [OF assms(1) assms(3) assms(2) assms(4) assms(5)]
  have t: "type (m_property c) \<noteq> PropertyType_LinkingObjects"
    using assms(6) by (auto simp: column_type_def)
  show "apply_predicate b (Comparison (key_path_expr k) (constant_expr x) modifier op opts)
          desc q
        = add_constraint b (column_type c) op opts (OColumn c) (OMixed x) q"
    if v: "is_valid_for_column b x c = Inr True"
  proof -
    from numeric_valid_has_description [OF assms(7,8) v]
    obtain d where "description x = Inr d"
      by blast
    with v t show ?thesis
      by (simp add: u validate_property_value_def Let_def)
  qed
  show "isl (apply_predicate b
               (Comparison (key_path_expr k) (constant_expr x) modifier op opts) desc q)"
    if "is_valid_for_column b x c \<noteq> Inr True"
    using that t
    by (auto simp: u validate_property_value_def Let_def split: sum.splits)
qed

lemma numeric_constraint_shape:
  assumes "column_type c \<in> {PropertyType_Int, PropertyType_Float, PropertyType_Double,
             PropertyType_Date, PropertyType_Decimal}"
    and "op = GreaterThanOrEqual \<or> op = LessThanOrEqual"
    and "add_constraint b (column_type c) op opts (OColumn c) (OMixed x) q = Inr q'"
  shows "\<exists>r. q' = and_query
                  (Compare op
                     (Columns
                        (case column_type c of
                           PropertyType_Int \<Rightarrow> R_Int
                         | PropertyType_Float \<Rightarrow> R_Float
                         | PropertyType_Double \<Rightarrow> R_Double
                         | PropertyType_Date \<Rightarrow> R_Timestamp
                         | _ \<Rightarrow> R_Decimal128) c None) r) q"
  using assms
  by (auto simp: add_constraint_def do_add_constraint_def with_values_of_type_def
        value_of_type_def resolve_def add_numeric_constraint_def
        split: if_splits sum.splits)

lemma matches_group_of_two:
  "matches row (end_group (and_query e2 (and_query e1 (group (where t)))))
     = Some (holds row e1 \<and> holds row e2)"
  by (simp add: matches_def end_group_def and_query_def group_def where_def)

lemma friends_age_resolves:
  "column_reference_from_key_path person_builder person_query Person ''friends.age'' True
     = Inr friends_age_column"
  by (simp add: example_defs resolve_defs friends_age_column_def person_column_def)

lemma friends_age_between_compiles:
  "apply_predicate person_builder
     (Comparison (key_path_expr ''friends.age'') (constant_expr (MArray [MInt 18, MInt 65]))
        Any Between None_options) Person person_query
   = Inr (and_query
            (Compare GreaterThan
               (LinkCount
                  (Columns R_Link friends_column
                     (Some (end_group
                              (and_query
                                 (Compare LessThanOrEqual (Columns R_Int age_column None)
                                    (IntValue 65))
                                 (and_query
                                    (Compare GreaterThanOrEqual (Columns R_Int age_column None)
                                       (IntValue 18))
                                    (group person_query)))))))
               (IntValue 0))
            person_query)"
  by (simp add: apply_predicate.simps classify_comparison_def add_between_constraint.simps
        has_any_to_many_links_def last_link_column_def link_target_object_schema_def
        column_ignoring_links_def where_for_def
        example_defs resolve_defs constraint_defs validate_defs
        age_column_def friends_column_def and_query_def group_def end_group_def)

lemma friends_age_conjunction_compiles:
  "apply_predicate person_builder
     (Compound And
        [Comparison (key_path_expr ''friends.age'') (constant_expr (MInt 18)) Any
           GreaterThanOrEqual None_options,
         Comparison (key_path_expr ''friends.age'') (constant_expr (MInt 65)) Any
           LessThanOrEqual None_options]) Person person_query
   = Inr (end_group
            (and_query
               (Compare LessThanOrEqual (Columns R_Int friends_age_column None) (IntValue 65))
               (and_query
                  (Compare GreaterThanOrEqual (Columns R_Int friends_age_column None)
                     (IntValue 18))
                  (group person_query))))"
  by (simp add: apply_predicate.simps classify_comparison_def
        example_defs resolve_defs constraint_defs validate_defs
        friends_age_column_def and_query_def group_def end_group_def)

lemma age_between_compiles:
  "apply_predicate person_builder
     (Comparison (key_path_expr ''age'') (ValueExpression Aggregate (MArray [MInt 18, MInt 65]))
        Direct Between None_options) Person person_query
   = Inr (end_group
            (and_query (Compare LessThanOrEqual (Columns R_Int age_column None) (IntValue 65))
               (and_query
                  (Compare GreaterThanOrEqual (Columns R_Int age_column None) (IntValue 18))
                  (group person_query))))"
  by (simp add: apply_predicate.simps classify_comparison_def add_between_constraint.simps
        has_any_to_many_links_def example_defs resolve_defs constraint_defs validate_defs
        age_column_def and_query_def group_def end_group_def)

text \<open>
  BETWEEN is not always the conjunction of the two comparisons. Over the to-many link
  \<open>friends\<close>, \<open>ANY friends.age BETWEEN {18, 65}\<close> compiles to a count of the friends that a
  subquery matches, compared with 0, and the conjunction of \<open>ANY friends.age >= 18\<close> and
  \<open>ANY friends.age <= 65\<close> to two comparisons on the column over the link: a person whose
  friends are 10 and 70 years old satisfies both comparisons, and the subquery matches
  none of the friends. With the array written as a literal, which is an aggregate
  expression, the comparison with ANY does not compile at all.
\<close>

theorem between_over_to_many_is_not_conjunction:
  "apply_predicate person_builder
     (Comparison (key_path_expr ''friends.age'') (constant_expr (MArray [MInt 18, MInt 65]))
        Any Between None_options) Person person_query
   = Inr (and_query
            (Compare GreaterThan
               (LinkCount
                  (Columns R_Link friends_column
                     (Some (end_group
                              (and_query
                                 (Compare LessThanOrEqual (Columns R_Int age_column None)
                                    (IntValue 65))
                                 (and_query
                                    (Compare GreaterThanOrEqual (Columns R_Int age_column None)
                                       (IntValue 18))
                                    (group person_query)))))))
               (IntValue 0))
            person_query)
   \<and> apply_predicate person_builder
     (Compound And
        [Comparison (key_path_expr ''friends.age'') (constant_expr (MInt 18)) Any
           GreaterThanOrEqual None_options,
         Comparison (key_path_expr ''friends.age'') (constant_expr (MInt 65)) Any
           LessThanOrEqual None_options]) Person person_query
   = Inr (end_group
            (and_query
               (Compare LessThanOrEqual (Columns R_Int friends_age_column None) (IntValue 65))
               (and_query
                  (Compare GreaterThanOrEqual (Columns R_Int friends_age_column None)
                     (IntValue 18))
                  (group person_query))))
   \<and> apply_predicate person_builder
     (Comparison (key_path_expr ''friends.age'') (constant_expr (MArray [MInt 18, MInt 65]))
        Any Between None_options) Person person_query
   \<noteq> apply_predicate person_builder
     (Compound And
        [Comparison (key_path_expr ''friends.age'') (constant_expr (MInt 18)) Any
           GreaterThanOrEqual None_options,
         Comparison (key_path_expr ''friends.age'') (constant_expr (MInt 65)) Any
           LessThanOrEqual None_options]) Person person_query
   \<and> matches (\<lambda>e. case e of Compare op (LinkCount x) y \<Rightarrow> False | _ \<Rightarrow> True)
       (and_query
          (Compare GreaterThan
             (LinkCount
                (Columns R_Link friends_column
                   (Some (end_group
                            (and_query
                               (Compare LessThanOrEqual (Columns R_Int age_column None)
                                  (IntValue 65))
                               (and_query
                                  (Compare GreaterThanOrEqual (Columns R_Int age_column None)
                                     (IntValue 18))
                                  (group person_query)))))))
             (IntValue 0))
          person_query)
     = Some False
   \<and> matches (\<lambda>e. case e of Compare op (LinkCount x) y \<Rightarrow> False | _ \<Rightarrow> True)
       (end_group
          (and_query
             (Compare LessThanOrEqual (Columns R_Int friends_age_column None) (IntValue 65))
             (and_query
                (Compare GreaterThanOrEqual (Columns R_Int friends_age_column None)
                   (IntValue 18))
                (group person_query))))
     = Some True
   \<and> apply_predicate person_builder
     (Comparison (key_path_expr ''friends.age'')
        (ValueExpression Aggregate (MArray [MInt 18, MInt 65])) Any Between None_options)
     Person person_query
   = Inl AnyModifierNeedsKeyPathAndValue"
proof -
  have "apply_predicate person_builder
          (Comparison (key_path_expr ''friends.age'')
             (ValueExpression Aggregate (MArray [MInt 18, MInt 65])) Any Between None_options)
          Person person_query
        = Inl AnyModifierNeedsKeyPathAndValue"
    by (simp add: apply_predicate.simps classify_comparison_def key_path_expr_def)
  then show ?thesis
    unfolding friends_age_between_compiles friends_age_conjunction_compiles
    by (simp add: and_query_def end_group_def group_def person_query_def where_def
          matches_def)
qed

text \<open>
  Claim C3, for the key paths that cross no to-many link. Let a key path resolve to a
  numeric column over no to-many link, in a comparison with the \<open>Direct\<close> modifier, or
  with ANY and a constant on the right. Then BETWEEN with the array \<open>[lo, hi]\<close> compiles
  exactly when the conjunction of \<open>>= lo\<close> and \<open><= hi\<close> on the key path compiles, and to
  the same query: a group of the two comparisons on the column, which a row matches
  exactly when it satisfies both. A right-hand value that is neither null nor an array
  of two values fails with the error that BETWEEN requires an array of two values.
\<close>

theorem between_is_conjunction:
  assumes "\<not> key_path_contains_collection_operator k"
    and "modifier \<noteq> All"
    and "column_reference_from_key_path b q desc k (modifier = Any) = Inr c"
    and "\<not> has_any_to_many_links c"
    and "column_type c \<in> {PropertyType_Int, PropertyType_Float, PropertyType_Double,
           PropertyType_Date, PropertyType_Decimal}"
    and "m_col c = Some ck"
    and "col_type ck \<in> {col_type_Int, col_type_Float, col_type_Double, col_type_Timestamp,
           col_type_Decimal}"
    and "et = ConstantValue \<or> (et = Aggregate \<and> modifier = Direct)"
  shows "(isl (apply_predicate b
                 (Comparison (key_path_expr k) (ValueExpression et (MArray [lo, hi])) modifier
                    Between opts) desc q)
          \<longleftrightarrow> isl (apply_predicate b
                 (Compound And
                    [Comparison (key_path_expr k) (constant_expr lo) modifier
                       GreaterThanOrEqual None_options,
                     Comparison (key_path_expr k) (constant_expr hi) modifier
                       LessThanOrEqual None_options]) desc q))
       \<and> (\<forall>q'. apply_predicate b
                 (Comparison (key_path_expr k) (ValueExpression et (MArray [lo, hi])) modifier
                    Between opts) desc q = Inr q'
              \<longrightarrow> apply_predicate b
                 (Compound And
                    [Comparison (key_path_expr k) (constant_expr lo) modifier
                       GreaterThanOrEqual None_options,
                     Comparison (key_path_expr k) (constant_expr hi) modifier
                       LessThanOrEqual None_options]) desc q = Inr q'
                \<and> (\<exists>T l h.
                      q' = end_group
                             (and_query (Compare LessThanOrEqual (Columns T c None) h)
                                (and_query (Compare GreaterThanOrEqual (Columns T c None) l)
                                   (group q)))
                    \<and> (q = where t \<longrightarrow>
                         matches row q'
                           = Some (row (Compare GreaterThanOrEqual (Columns T c None) l)
                                 \<and> row (Compare LessThanOrEqual (Columns T c None) h)))))
       \<and> (v \<noteq> Null \<and> (\<forall>x y. v \<noteq> MArray [x, y]) \<longrightarrow>
            apply_predicate b
              (Comparison (key_path_expr k) (ValueExpression et v) modifier Between opts) desc q
            = Inl BetweenRequiresTwoValues)"
proof -
  let ?ge = "Comparison (key_path_expr k) (constant_expr lo) modifier GreaterThanOrEqual
               None_options"
  let ?le = "Comparison (key_path_expr k) (constant_expr hi) modifier LessThanOrEqual
               None_options"
  let ?L = "apply_predicate b
              (Comparison (key_path_expr k) (ValueExpression et (MArray [lo, hi])) modifier
                 Between opts) desc q"
  let ?R = "apply_predicate b (Compound And [?ge, ?le]) desc q"
  let ?A1 = "add_constraint b (column_type c) GreaterThanOrEqual None_options (OColumn c)
               (OMixed lo) (group q)"
  let ?A2 = "\<lambda>q1. add_constraint b (column_type c) LessThanOrEqual None_options (OColumn c)
               (OMixed hi) q1"
  let ?V1 = "is_valid_for_column b lo c"
  let ?V2 = "is_valid_for_column b hi c"
  have o: "GreaterThanOrEqual \<noteq> Between" "GreaterThanOrEqual \<noteq> In"
    "LessThanOrEqual \<noteq> Between" "LessThanOrEqual \<noteq> In"
    by simp_all
  have c0: "column_reference_from_key_path b (group q) desc k (modifier = Any) = Inr c"
    using assms(3) column_reference_query_table [of "group q" q b desc k "modifier = Any"]
    by simp
  note ge = numeric_value_comparison
              [OF assms(1) assms(2) c0 o(1) o(2) assms(5) assms(6) assms(7),
               where x = lo and opts = None_options]
  have c1: "column_reference_from_key_path b q1 desc k (modifier = Any) = Inr c"
    if "?A1 = Inr q1" for q1
  proof -
    from add_constraint_table [OF that] have "query_table q1 = query_table q"
      by simp
    from column_reference_query_table [OF this, of b desc k "modifier = Any"] assms(3)
    show ?thesis
      by simp
  qed
  have R: "?R = (case apply_predicate b ?ge desc (group q) of
                   Inl e \<Rightarrow> Inl e
                 | Inr q1 \<Rightarrow>
                     (case apply_predicate b ?le desc q1 of
                        Inl e \<Rightarrow> Inl e
                      | Inr q2 \<Rightarrow> Inr (end_group q2)))"
    by (simp add: apply_predicate.simps(1) split: sum.splits)
  have L: "?L = (case ?V1 of
                   Inl e \<Rightarrow> Inl e
                 | Inr ok_lo \<Rightarrow>
                     if \<not> ok_lo then Inl (BetweenArrayObjectsType (type (m_property c)))
                     else
                       (case ?V2 of
                          Inl e \<Rightarrow> Inl e
                        | Inr ok_hi \<Rightarrow>
                            if \<not> ok_hi
                            then Inl (BetweenArrayObjectsType (type (m_property c)))
                            else
                              (case ?A1 of
                                 Inl e \<Rightarrow> Inl e
                               | Inr q1 \<Rightarrow>
                                   (case ?A2 q1 of
                                      Inl e \<Rightarrow> Inl e
                                    | Inr q2 \<Rightarrow> Inr (end_group q2)))))"
    by (simp add: between_unfold [OF assms(1) assms(2) assms(3) assms(4) assms(8)])
  have same: "(isl ?L \<longleftrightarrow> isl ?R) \<and> (\<forall>q'. ?L = Inr q' \<longrightarrow> ?R = Inr q')"
  proof (cases "?V1 = Inr True")
    case False
    from ge(2) [OF False] have "isl ?R"
      unfolding R by (auto split: sum.splits)
    moreover from False have "isl ?L"
      unfolding L by (auto split: sum.splits)
    ultimately show ?thesis
      by auto
  next
    case v1: True
    note g = ge(1) [OF v1]
    show ?thesis
    proof (cases ?A1)
      case (Inl e)
      with v1 show ?thesis
        unfolding L R g by (auto split: sum.splits)
    next
      case a1: (Inr q1)
      note le = numeric_value_comparison
                  [OF assms(1) assms(2) c1 [OF a1] o(3) o(4) assms(5) assms(6) assms(7),
                   where x = hi and opts = None_options]
      show ?thesis
      proof (cases "?V2 = Inr True")
        case False
        from le(2) [OF False] have "isl ?R"
          unfolding R g a1 by (auto split: sum.splits)
        moreover from False have "isl ?L"
          unfolding L by (auto split: sum.splits)
        ultimately show ?thesis
          by auto
      next
        case v2: True
        show ?thesis
          unfolding L R g a1 using v1 v2 by (simp add: le(1) [OF v2] a1)
      qed
    qed
  qed
  have shape: "\<exists>T l h.
                 q' = end_group
                        (and_query (Compare LessThanOrEqual (Columns T c None) h)
                           (and_query (Compare GreaterThanOrEqual (Columns T c None) l)
                              (group q)))
               \<and> (q = where t \<longrightarrow>
                    matches row q'
                      = Some (row (Compare GreaterThanOrEqual (Columns T c None) l)
                            \<and> row (Compare LessThanOrEqual (Columns T c None) h)))"
    if "?L = Inr q'" for q'
  proof -
    from that obtain q1 q2 where a1: "?A1 = Inr q1" and a2: "?A2 q1 = Inr q2"
      and q': "q' = end_group q2"
      unfolding L by (auto split: sum.splits if_splits)
    let ?T = "case column_type c of
                PropertyType_Int \<Rightarrow> R_Int
              | PropertyType_Float \<Rightarrow> R_Float
              | PropertyType_Double \<Rightarrow> R_Double
              | PropertyType_Date \<Rightarrow> R_Timestamp
              | _ \<Rightarrow> R_Decimal128"
    from numeric_constraint_shape [OF assms(5) _ a1]
    obtain l where q1: "q1 = and_query (Compare GreaterThanOrEqual (Columns ?T c None) l)
                               (group q)"
      by blast
    from numeric_constraint_shape [OF assms(5) _ a2]
    obtain h where q2: "q2 = and_query (Compare LessThanOrEqual (Columns ?T c None) h) q1"
      by blast
    with q' q1 q2 show ?thesis
      by (auto simp: matches_group_of_two)
  qed
  have bad: "apply_predicate b
               (Comparison (key_path_expr k) (ValueExpression et v) modifier Between opts)
               desc q
             = Inl BetweenRequiresTwoValues"
    if "v \<noteq> Null" "\<forall>x y. v \<noteq> MArray [x, y]"
    using that
    by (cases v)
       (auto simp: between_unfold [OF assms(1) assms(2) assms(3) assms(4) assms(8)]
          split: list.splits)
  from same shape bad show ?thesis
    by blast
qed

theorem between_is_conjunction_witness:
  "apply_predicate person_builder
     (Comparison (key_path_expr ''age'') (ValueExpression Aggregate (MArray [MInt 18, MInt 65]))
        Direct Between None_options) Person person_query
   = Inr (end_group
            (and_query (Compare LessThanOrEqual (Columns R_Int age_column None) (IntValue 65))
               (and_query
                  (Compare GreaterThanOrEqual (Columns R_Int age_column None) (IntValue 18))
                  (group person_query))))
   \<and> apply_predicate person_builder
     (Compound And
        [Comparison (key_path_expr ''age'') (constant_expr (MInt 18)) Direct
           GreaterThanOrEqual None_options,
         Comparison (key_path_expr ''age'') (constant_expr (MInt 65)) Direct
           LessThanOrEqual None_options]) Person person_query
   = Inr (end_group
            (and_query (Compare LessThanOrEqual (Columns R_Int age_column None) (IntValue 65))
               (and_query
                  (Compare GreaterThanOrEqual (Columns R_Int age_column None) (IntValue 18))
                  (group person_query))))
   \<and> apply_predicate person_builder
     (Comparison (key_path_expr ''age'')
        (ValueExpression Aggregate (MArray [MInt 18, MInt 65, MInt 70]))
        Direct Between None_options) Person person_query
   = Inl BetweenRequiresTwoValues
   \<and> apply_predicate person_builder
     (Comparison (key_path_expr ''age'') (ValueExpression Aggregate (MInt 18))
        Direct Between None_options) Person person_query
   = Inl BetweenRequiresTwoValues"
proof -
  let ?age = "\<lparr>col_index = 1, col_type = col_type_Int, is_nullable = False,
                is_list = False\<rparr>"
  have n: "\<not> key_path_contains_collection_operator ''age''"
    by (simp add: key_path_contains_collection_operator_def)
  have d: "Direct \<noteq> All"
    by simp
  have r: "column_reference_from_key_path person_builder person_query Person ''age''
             (Direct = Any) = Inr age_column"
    using age_resolves by simp
  have m: "\<not> has_any_to_many_links age_column"
    by (simp add: has_any_to_many_links_def age_column_def)
  have t: "column_type age_column \<in> {PropertyType_Int, PropertyType_Float, PropertyType_Double,
             PropertyType_Date, PropertyType_Decimal}"
    by (simp add: column_type_def age_column_def plain_property_def)
  have c: "m_col age_column = Some ?age"
    by (simp add: age_column_def person_column_def)
  have k: "col_type ?age \<in> {col_type_Int, col_type_Float, col_type_Double, col_type_Timestamp,
             col_type_Decimal}"
    by simp
  have a: "Aggregate = ConstantValue \<or> (Aggregate = Aggregate \<and> Direct = Direct)"
    by simp
  have three: "MArray [MInt 18, MInt 65, MInt 70] \<noteq> Null
               \<and> (\<forall>x y. MArray [MInt 18, MInt 65, MInt 70] \<noteq> MArray [x, y])"
    by simp
  have one: "MInt 18 \<noteq> Null \<and> (\<forall>x y. MInt 18 \<noteq> MArray [x, y])"
    by simp
  show ?thesis
    using between_is_conjunction [OF n d r m t c k a, where lo = "MInt 18"
        and hi = "MInt 65" and opts = None_options
        and v = "MArray [MInt 18, MInt 65, MInt 70]"]
      between_is_conjunction [OF n d r m t c k a, where lo = "MInt 18"
        and hi = "MInt 65" and opts = None_options and v = "MInt 18"]
      age_between_compiles three one
    by blast
qed

subsection \<open>IN\<close>

lemma validate_property_value_err:
  "isl (validate_property_value b c x e1 d k) = isl (validate_property_value b c x e2 d k)"
  by (auto simp: validate_property_value_def Let_def split: sum.splits)

lemma validate_property_value_unit:
  "validate_property_value b c x e1 d k = Inr u \<Longrightarrow>
   validate_property_value b c x e2 d k = Inr ()"
  using validate_property_value_err [of b c x e1 d k e2]
  by (cases "validate_property_value b c x e2 d k") auto

lemma in_unfold:
  assumes "\<not> key_path_contains_collection_operator k"
    and "modifier \<noteq> All"
    and "column_reference_from_key_path b q desc k (modifier = Any) = Inr c"
    and "et = ConstantValue \<or> (et = Aggregate \<and> modifier = Direct)"
  shows "apply_predicate b (Comparison (key_path_expr k) (ValueExpression et v) modifier In opts)
           desc q
         = (case get_type v of
              Inl e \<Rightarrow> Inl e
            | Inr t \<Rightarrow>
                if t \<noteq> type_LinkList then Inl InRequiresArray
                else
                  (case add_in_items b c opts desc k (get_array v) True (group q) of
                     Inl e \<Rightarrow> Inl e
                   | Inr q1 \<Rightarrow>
                       if get_array v = [] then Inr (end_group (and_query FalseExpression q1))
                       else Inr (end_group q1)))"
  using assms
  by (auto simp: apply_predicate.simps(2) classify_comparison_def key_path_expr_def)

lemma in_items_or:
  assumes "\<not> key_path_contains_collection_operator k"
    and "modifier \<noteq> All"
    and "column_reference_from_key_path b q desc k (modifier = Any) = Inr c"
  shows "query_table q0 = query_table q \<Longrightarrow>
         (isl (add_in_items b c opts desc k items first q0)
            \<longleftrightarrow> isl (apply_subpredicates_or b
                      (map (\<lambda>x. Comparison (key_path_expr k) (constant_expr x) modifier
                                  Equal opts) items)
                      first desc q0))
         \<and> (\<forall>q'. add_in_items b c opts desc k items first q0 = Inr q'
                \<longrightarrow> apply_subpredicates_or b
                      (map (\<lambda>x. Comparison (key_path_expr k) (constant_expr x) modifier
                                  Equal opts) items)
                      first desc q0 = Inr q')"
proof (induction items arbitrary: first q0)
  case Nil
  show ?case by simp
next
  case (Cons x items)
  let ?q0 = "if \<not> first then Or_query q0 else q0"
  let ?V = "\<lambda>err. validate_property_value b c x err desc k"
  let ?A = "add_constraint b (column_type c) Equal opts (OColumn c) (OMixed x) ?q0"
  have t: "query_table ?q0 = query_table q"
    using Cons.prems by simp
  from column_reference_query_table [OF t, of b desc k "modifier = Any"] assms(3)
  have "column_reference_from_key_path b ?q0 desc k (modifier = Any) = Inr c"
    by simp
  from value_comparison_unfold [OF assms(1) this assms(2), of Equal x opts]
  have child: "apply_predicate b
                 (Comparison (key_path_expr k) (constant_expr x) modifier Equal opts) desc ?q0
               = (case ?V ExpectedObjectOfType of Inl e \<Rightarrow> Inl e | Inr u \<Rightarrow> ?A)"
    by simp
  show ?case
  proof (cases "?V ExpectedObjectOfTypeIn")
    case (Inl e)
    with validate_property_value_err [of b c x ExpectedObjectOfTypeIn desc k
        ExpectedObjectOfType]
    obtain e' where "?V ExpectedObjectOfType = Inl e'"
      by (cases "?V ExpectedObjectOfType") auto
    with Inl child show ?thesis
      by simp
  next
    case (Inr u)
    from validate_property_value_unit [OF Inr]
    have v: "?V ExpectedObjectOfType = Inr ()" .
    show ?thesis
    proof (cases ?A)
      case (Inl e)
      with Inr v child show ?thesis
        by simp
    next
      case a: (Inr q1)
      from add_constraint_table [OF a] t have "query_table q1 = query_table q"
        by simp
      from Cons.IH [OF this, of False] Inr v child a show ?thesis
        by simp
    qed
  qed
qed

lemma matches_group_of_false:
  "matches row (end_group (and_query FalseExpression (group (where t)))) = Some False"
  by (simp add: matches_def end_group_def and_query_def group_def where_def)

lemma age_in_compiles:
  "apply_predicate person_builder
     (Comparison (key_path_expr ''age'') (constant_expr (MArray [MInt 18, MInt 21, MInt 65]))
        Direct In None_options) Person person_query
   = Inr (end_group
            (and_query (Compare Equal (Columns R_Int age_column None) (IntValue 65))
               (Or_query
                  (and_query (Compare Equal (Columns R_Int age_column None) (IntValue 21))
                     (Or_query
                        (and_query
                           (Compare Equal (Columns R_Int age_column None) (IntValue 18))
                           (group person_query)))))))"
  by (simp add: apply_predicate.simps classify_comparison_def example_defs resolve_defs
        constraint_defs validate_defs age_column_def and_query_def group_def end_group_def
        Or_query_def)

lemma friends_age_disjunction_compiles:
  "apply_predicate person_builder
     (Compound Or
        [Comparison (key_path_expr ''friends.age'') (constant_expr (MInt 18)) Any Equal
           None_options,
         Comparison (key_path_expr ''friends.age'') (constant_expr (MInt 21)) Any Equal
           None_options,
         Comparison (key_path_expr ''friends.age'') (constant_expr (MInt 65)) Any Equal
           None_options]) Person person_query
   = Inr (end_group
            (and_query (Compare Equal (Columns R_Int friends_age_column None) (IntValue 65))
               (Or_query
                  (and_query
                     (Compare Equal (Columns R_Int friends_age_column None) (IntValue 21))
                     (Or_query
                        (and_query
                           (Compare Equal (Columns R_Int friends_age_column None)
                              (IntValue 18))
                           (group person_query)))))))"
  by (simp add: apply_predicate.simps classify_comparison_def example_defs resolve_defs
        constraint_defs validate_defs friends_age_column_def and_query_def group_def
        end_group_def Or_query_def)

text \<open>
  IN with an array on the right does not always compile: with the ANY modifier and the
  array written as a literal, which is an aggregate expression, it fails the check of the
  modifier, whether the array is empty or not, while the disjunction of the equalities
  with ANY compiles.
\<close>

theorem in_with_any_and_array_literal_fails:
  "apply_predicate person_builder
     (Comparison (key_path_expr ''friends.age'') (ValueExpression Aggregate (MArray []))
        Any In None_options) Person person_query
   = Inl AnyModifierNeedsKeyPathAndValue
   \<and> apply_predicate person_builder
     (Comparison (key_path_expr ''friends.age'')
        (ValueExpression Aggregate (MArray [MInt 18, MInt 21, MInt 65]))
        Any In None_options) Person person_query
   = Inl AnyModifierNeedsKeyPathAndValue
   \<and> apply_predicate person_builder
     (Compound Or
        [Comparison (key_path_expr ''friends.age'') (constant_expr (MInt 18)) Any Equal
           None_options,
         Comparison (key_path_expr ''friends.age'') (constant_expr (MInt 21)) Any Equal
           None_options,
         Comparison (key_path_expr ''friends.age'') (constant_expr (MInt 65)) Any Equal
           None_options]) Person person_query
   = Inr (end_group
            (and_query (Compare Equal (Columns R_Int friends_age_column None) (IntValue 65))
               (Or_query
                  (and_query
                     (Compare Equal (Columns R_Int friends_age_column None) (IntValue 21))
                     (Or_query
                        (and_query
                           (Compare Equal (Columns R_Int friends_age_column None)
                              (IntValue 18))
                           (group person_query)))))))"
proof -
  have "apply_predicate person_builder
          (Comparison (key_path_expr ''friends.age'') (ValueExpression Aggregate v)
             Any In None_options) Person person_query
        = Inl AnyModifierNeedsKeyPathAndValue" for v
    by (simp add: apply_predicate.simps classify_comparison_def key_path_expr_def)
  with friends_age_disjunction_compiles show ?thesis
    by simp
qed

text \<open>
  Claim C4, for the comparisons that pass the check of the modifier. Let a key path
  resolve to a column, in a comparison with the \<open>Direct\<close> modifier, or with ANY and a
  constant on the right. Then IN with the empty array compiles to a group that holds the
  constant-false expression only, which matches no row; IN with the array \<open>[x, y, z]\<close>
  compiles exactly when the disjunction of the three equalities on the key path compiles,
  and to the same query; and a right-hand value that is neither null nor an array fails
  with the error that IN requires an array.
\<close>

theorem in_is_disjunction:
  assumes "\<not> key_path_contains_collection_operator k"
    and "modifier \<noteq> All"
    and "column_reference_from_key_path b q desc k (modifier = Any) = Inr c"
    and "et = ConstantValue \<or> (et = Aggregate \<and> modifier = Direct)"
  shows "apply_predicate b
           (Comparison (key_path_expr k) (ValueExpression et (MArray [])) modifier In opts)
           desc q
         = Inr (end_group (and_query FalseExpression (group q)))
       \<and> matches row (end_group (and_query FalseExpression (group (where t)))) = Some False
       \<and> (isl (apply_predicate b
                 (Comparison (key_path_expr k) (ValueExpression et (MArray [x, y, z])) modifier
                    In opts) desc q)
            \<longleftrightarrow> isl (apply_predicate b
                 (Compound Or
                    [Comparison (key_path_expr k) (constant_expr x) modifier Equal opts,
                     Comparison (key_path_expr k) (constant_expr y) modifier Equal opts,
                     Comparison (key_path_expr k) (constant_expr z) modifier Equal opts])
                 desc q))
       \<and> (\<forall>q'. apply_predicate b
                 (Comparison (key_path_expr k) (ValueExpression et (MArray [x, y, z])) modifier
                    In opts) desc q = Inr q'
              \<longrightarrow> apply_predicate b
                 (Compound Or
                    [Comparison (key_path_expr k) (constant_expr x) modifier Equal opts,
                     Comparison (key_path_expr k) (constant_expr y) modifier Equal opts,
                     Comparison (key_path_expr k) (constant_expr z) modifier Equal opts])
                 desc q = Inr q')
       \<and> (v \<noteq> Null \<and> (\<forall>xs. v \<noteq> MArray xs) \<longrightarrow>
            apply_predicate b
              (Comparison (key_path_expr k) (ValueExpression et v) modifier In opts) desc q
            = Inl InRequiresArray)"
proof -
  let ?items = "[x, y, z]"
  let ?f = "\<lambda>x. Comparison (key_path_expr k) (constant_expr x) modifier Equal opts"
  let ?L = "apply_predicate b
              (Comparison (key_path_expr k) (ValueExpression et (MArray ?items)) modifier In
                 opts) desc q"
  let ?R = "apply_predicate b (Compound Or (map ?f ?items)) desc q"
  let ?I = "add_in_items b c opts desc k ?items True (group q)"
  let ?O = "apply_subpredicates_or b (map ?f ?items) True desc (group q)"
  note u = in_unfold [OF assms(1) assms(2) assms(3) assms(4)]
  have empty: "apply_predicate b
                 (Comparison (key_path_expr k) (ValueExpression et (MArray [])) modifier In
                    opts) desc q
               = Inr (end_group (and_query FalseExpression (group q)))"
    by (simp add: u)
  have L: "?L = (case ?I of Inl e \<Rightarrow> Inl e | Inr q1 \<Rightarrow> Inr (end_group q1))"
    by (simp add: u del: add_in_items.simps cong: sum.case_cong)
  have R: "?R = (case ?O of Inl e \<Rightarrow> Inl e | Inr q1 \<Rightarrow> Inr (end_group q1))"
    by (simp add: apply_predicate.simps(1) del: apply_subpredicates_or.simps)
  have "query_table (group q) = query_table q"
    by simp
  from in_items_or [OF assms(1) assms(2) assms(3) this, of opts ?items True]
  have "(isl ?I \<longleftrightarrow> isl ?O) \<and> (\<forall>q'. ?I = Inr q' \<longrightarrow> ?O = Inr q')" .
  then have same: "(isl ?L \<longleftrightarrow> isl ?R) \<and> (\<forall>q'. ?L = Inr q' \<longrightarrow> ?R = Inr q')"
    unfolding L R by (cases ?I; cases ?O) auto
  have bad: "v \<noteq> Null \<and> (\<forall>xs. v \<noteq> MArray xs) \<longrightarrow>
             apply_predicate b
               (Comparison (key_path_expr k) (ValueExpression et v) modifier In opts) desc q
             = Inl InRequiresArray"
    by (cases v) (simp_all add: u)
  from empty same bad matches_group_of_false [of row t] show ?thesis
    by simp
qed

theorem in_is_disjunction_witness:
  "apply_predicate person_builder
     (Comparison (key_path_expr ''age'') (constant_expr (MArray [])) Direct In None_options)
     Person person_query
   = Inr (end_group (and_query FalseExpression (group person_query)))
   \<and> apply_predicate person_builder
     (Compound Or
        [Comparison (key_path_expr ''age'') (constant_expr (MInt 18)) Direct Equal
           None_options,
         Comparison (key_path_expr ''age'') (constant_expr (MInt 21)) Direct Equal
           None_options,
         Comparison (key_path_expr ''age'') (constant_expr (MInt 65)) Direct Equal
           None_options]) Person person_query
   = Inr (end_group
            (and_query (Compare Equal (Columns R_Int age_column None) (IntValue 65))
               (Or_query
                  (and_query (Compare Equal (Columns R_Int age_column None) (IntValue 21))
                     (Or_query
                        (and_query
                           (Compare Equal (Columns R_Int age_column None) (IntValue 18))
                           (group person_query)))))))
   \<and> apply_predicate person_builder
     (Comparison (key_path_expr ''age'') (constant_expr (MInt 18)) Direct In None_options)
     Person person_query
   = Inl InRequiresArray"
proof -
  have n: "\<not> key_path_contains_collection_operator ''age''"
    by (simp add: key_path_contains_collection_operator_def)
  have c: "column_reference_from_key_path person_builder person_query Person ''age''
             (Direct = Any) = Inr age_column"
    using age_resolves by simp
  have d: "Direct \<noteq> All"
    by simp
  have e: "ConstantValue = ConstantValue \<or> (ConstantValue = Aggregate \<and> Direct = Direct)"
    by simp
  have i: "MInt 18 \<noteq> Null \<and> (\<forall>xs. MInt 18 \<noteq> MArray xs)"
    by simp
  show ?thesis
    using in_is_disjunction [OF n d c e, where x = "MInt 18" and y = "MInt 21"
        and z = "MInt 65" and opts = None_options and v = "MInt 18"]
      age_in_compiles i
    unfolding constant_expr_def
    by blast
qed

text \<open>
  Null on the right of BETWEEN or IN reaches \<open>get_type\<close> in the condition of the
  precondition that would reject it, and fails its assertion.
\<close>

lemma between_and_in_of_null_fail_assertion:
  "apply_predicate person_builder
     (Comparison (key_path_expr ''age'') (constant_expr Null) Direct Between None_options)
     Person person_query
   = Inl AssertionFailed
   \<and> apply_predicate person_builder
     (Comparison (key_path_expr ''age'') (constant_expr Null) Direct In None_options)
     Person person_query
   = Inl AssertionFailed"
  by (simp add: apply_predicate.simps classify_comparison_def add_between_constraint.simps
        has_any_to_many_links_def example_defs resolve_defs
        key_path_contains_collection_operator_def)

end
